theory Spec2Isabelle
  imports Complex_Main "HOL-Library.Word"
begin

unbundle bit_operations_syntax

section \<open>Data model of the calibration engine\<close>

text \<open>
  The firmware runs on an ATmega328 (\<^verbatim>\<open>platform = atmelavr\<close>): \<^verbatim>\<open>int\<close> and
  \<^verbatim>\<open>unsigned int\<close> are 16 bits wide, \<^verbatim>\<open>uint8_t\<close>, \<^verbatim>\<open>uint16_t\<close> and \<^verbatim>\<open>uint64_t\<close>
  are modelled as words of that width. A \<^verbatim>\<open>float\<close> is modelled as a \<^typ>\<open>real\<close>:
  arithmetic is exact, there is no rounding, no infinity and no NaN. The one function
  whose integer result depends on the rounding, \<^verbatim>\<open>hz_to_cents_deviation\<close>, carries the
  rounding error of its float expression as a parameter.
\<close>

type_synonym u8 = "8 word"
type_synonym u16 = "16 word"
type_synonym i16 = "16 word"
type_synonym u64 = "64 word"

text \<open>\<^verbatim>\<open>enum class CalibStage\<close> and \<^verbatim>\<open>enum class CalibVcoStage\<close> (calibration.h). The
  two enums share the names NONE and TUNER; the sub-stage ones carry the prefix Vco.\<close>

datatype CalibStage =
  NONE | PREP_GAIN_1 | GAIN_1 | PREP_GAIN_2 | GAIN_2 | PREP_TUNER | TUNER
  | PREP_VCO_1 | VCO_1 | PREP_VCO_2 | VCO_2 | PREP_RESET_VCO_1 | PREP_RESET_VCO_2
  | DONE | ERROR

datatype CalibVcoStage = VcoNONE | VcoTUNER | LOWER | LINEARITY

text \<open>\<^verbatim>\<open>struct calibMatrix { uint8_t note_min, note_max; uint16_t matrix[128 - 12]; }\<close>.
  The array is a list; every state the firmware builds holds 116 entries.\<close>

record calibMatrix =
  note_min :: u8
  note_max :: u8
  matrix :: "u16 list"

definition MATRIX_LEN :: nat where
  "MATRIX_LEN = 128 - 12"

text \<open>An access outside the array is undefined behaviour in C++; the model stops with a
  fault that names the index.\<close>

datatype fault = OutOfBounds nat

definition mat_read :: "u16 list \<Rightarrow> nat \<Rightarrow> fault + u16" where
  "mat_read m i = (if i < length m then Inr (m ! i) else Inl (OutOfBounds i))"

definition mat_write :: "u16 list \<Rightarrow> nat \<Rightarrow> u16 \<Rightarrow> fault + u16 list" where
  "mat_write m i v = (if i < length m then Inr (m[i := v]) else Inl (OutOfBounds i))"

definition and_then :: "fault + 'a \<Rightarrow> ('a \<Rightarrow> fault + 'b) \<Rightarrow> fault + 'b" where
  "and_then r f = (case r of Inl e \<Rightarrow> Inl e | Inr x \<Rightarrow> f x)"

text \<open>The fields of \<^verbatim>\<open>class Calibration\<close> (calibration.h), followed by the state of the
  collaborators that calibration.cpp writes: the two targets of \<^verbatim>\<open>DAC::set\<close> and the
  EEPROM cells at the four fixed addresses.\<close>

record Calibration =
  active :: bool
  stage :: CalibStage
  stage_vco :: CalibVcoStage
  gain_1_offset :: real
  gain_2_offset :: real
  tuner_deviation_cents :: i16
  vco_calib_progress :: real
  stage_last :: CalibStage
  btn_timer :: u64
  btn_handled :: bool
  time_last :: u64
  frequency_raw :: real
  frequency :: real
  target_frequency :: real
  calib_matrix_1 :: calibMatrix
  calib_matrix_2 :: calibMatrix
  vco_calib_timer :: u64
  mv_current :: u16
  vco_cents_last :: u16
  vco_cents_buffer :: "u16 list"
  vco_note_closest_mv :: u16
  vco_cents_buffer_counter :: u8
  address_last :: u8
  dac_1_target :: real
  dac_2_target :: real
  eeprom_gain_1 :: u8
  eeprom_gain_2 :: u8
  eeprom_matrix_1 :: calibMatrix
  eeprom_matrix_2 :: calibMatrix

section \<open>utils.h\<close>

text \<open>Conversion of a float to an integer type truncates towards zero; \<^verbatim>\<open>roundf\<close>
  rounds halfway cases away from zero.\<close>

definition truncf :: "real \<Rightarrow> int" where
  "truncf x = (if 0 \<le> x then \<lfloor>x\<rfloor> else \<lceil>x\<rceil>)"

definition roundf :: "real \<Rightarrow> int" where
  "roundf x = (if 0 \<le> x then \<lfloor>x + 1 / 2\<rfloor> else \<lceil>x - 1 / 2\<rceil>)"

definition map_f :: "real \<Rightarrow> real \<Rightarrow> real \<Rightarrow> real \<Rightarrow> real \<Rightarrow> real" where
  "map_f x in_min in_max out_min out_max =
     (x - in_min) * (out_max - out_min) / (in_max - in_min) + out_min"

definition note_to_hz :: "u16 \<Rightarrow> real" where
  "note_to_hz cents = 440 * 2 powr (real_of_int (sint (cents - 6900)) / 1200)"

definition INT16_MAX :: i16 where
  "INT16_MAX = 32767"

definition INT16_MIN :: i16 where
  "INT16_MIN = - 32768"

text \<open>\<^verbatim>\<open>hz_to_cents_deviation\<close>. The code evaluates the expression of line 73 in binary32:
  \<open>err\<close> is the rounding error of that evaluation, the value the code gets for
  \<^verbatim>\<open>cents\<close> minus the exact one. The comparisons of lines 68 to 76, \<^verbatim>\<open>roundf\<close> and the
  cast are exact on the values they get. With \<open>err = 0\<close> the arithmetic is exact, as it
  is in the rest of this development.\<close>

definition hz_to_cents_deviation_fl :: "real \<Rightarrow> real \<Rightarrow> real \<Rightarrow> i16" where
  "hz_to_cents_deviation_fl err target measured =
     (if target \<le> 0 then INT16_MAX
      else if measured \<le> 0 then INT16_MIN
      else
        let cents = 1200 * (ln (measured / target) / ln 2) + err in
        if cents \<ge> real_of_int (sint INT16_MAX) then INT16_MAX
        else if cents \<le> real_of_int (sint INT16_MIN) then INT16_MIN
        else word_of_int (roundf cents))"

definition hz_to_cents_deviation :: "real \<Rightarrow> real \<Rightarrow> i16" where
  "hz_to_cents_deviation target measured = hz_to_cents_deviation_fl 0 target measured"

definition note_to_mv :: "u16 \<Rightarrow> real" where
  "note_to_mv cents =
     (if cents \<le> 1200 then 0
      else
        let octave = (ucast (cents div 1200) :: u8);
            note = real (unat (cents mod 1200)) / 1200
        in 1000 * (real (unat ((ucast octave :: u16) - 1)) + note))"

definition hz_to_note :: "real \<Rightarrow> u16" where
  "hz_to_note freq =
     (if freq \<le> 0 then 0
      else word_of_int (roundf (6900 + 1200 * (ln (freq / 440) / ln 2))))"

section \<open>calibration.cpp: note to millivolts\<close>

text \<open>\<^verbatim>\<open>channel ? &calib_matrix_2 : &calib_matrix_1\<close>\<close>

definition matrix_of :: "Calibration \<Rightarrow> u8 \<Rightarrow> calibMatrix" where
  "matrix_of s channel = (if channel \<noteq> 0 then calib_matrix_2 s else calib_matrix_1 s)"

text \<open>The test "No calibration stored or currently in calibration" of
  \<^verbatim>\<open>note_to_mv_cal\<close>.\<close>

definition no_calibration :: "Calibration \<Rightarrow> u8 \<Rightarrow> bool" where
  "no_calibration s channel =
     (let m = matrix_of s channel in
      note_min m > 127 \<or> note_max m > 127 \<or> note_min m = 0 \<or> note_min m \<ge> note_max m
      \<or> stage s = PREP_VCO_1 \<or> stage s = PREP_VCO_2 \<or> stage s = VCO_1 \<or> stage s = VCO_2)"

text \<open>The pair of whole notes between which \<^verbatim>\<open>note_to_mv_cal\<close> interpolates.\<close>

definition bracket :: "calibMatrix \<Rightarrow> real \<Rightarrow> u8 \<times> u8" where
  "bracket m note =
     (if (word_of_int (truncf note) :: u8) \<ge> note_max m then (note_max m - 1, note_max m)
      else if (word_of_int (truncf note) :: u8) \<le> note_min m then (note_min m, note_min m + 1)
      else (word_of_int (truncf note), word_of_int (truncf note) + 1))"

text \<open>The index \<^verbatim>\<open>n - 12U\<close> of an 8-bit note \<open>n\<close>: the subtraction is done in
  \<^verbatim>\<open>unsigned int\<close> and wraps below note 12.\<close>

definition note_index :: "u8 \<Rightarrow> nat" where
  "note_index n = unat ((ucast n :: u16) - 12)"

definition note_to_mv_cal :: "Calibration \<Rightarrow> u8 \<Rightarrow> u16 \<Rightarrow> fault + real" where
  "note_to_mv_cal s channel cents =
     (if cents < 1200 \<or> cents > 12700 then Inr 0
      else if no_calibration s channel then Inr (note_to_mv cents)
      else
        let m = matrix_of s channel;
            note = real (unat cents) / 100;
            (lo, hi) = bracket m note
        in and_then (mat_read (matrix m) (note_index lo)) (\<lambda>out_min.
           and_then (mat_read (matrix m) (note_index hi)) (\<lambda>out_max.
             Inr (map_f note (real (unat lo)) (real (unat hi))
                    (real (unat out_min)) (real (unat out_max))))))"

section \<open>dac.h, dac.cpp: the output sink\<close>

text \<open>\<^verbatim>\<open>DAC::set\<close> stores the two targets, negative ones as 0. A NaN target means "leave
  unchanged"; calibration.cpp never passes one, and the model has none.\<close>

definition dac_set :: "Calibration \<Rightarrow> real \<Rightarrow> real \<Rightarrow> Calibration" where
  "dac_set s target_1 target_2 =
     s\<lparr>dac_1_target := (if target_1 \<ge> 0 then target_1 else 0),
       dac_2_target := (if target_2 \<ge> 0 then target_2 else 0)\<rparr>"

definition set_dac_cv :: "Calibration \<Rightarrow> u8 \<Rightarrow> real \<Rightarrow> Calibration" where
  "set_dac_cv s channel mv = (if channel = 0 then dac_set s mv 0 else dac_set s 0 mv)"

definition GAIN_1_BASE :: real where
  "GAIN_1_BASE = 1824 / 1000"

definition GAIN_2_BASE :: real where
  "GAIN_2_BASE = 1824 / 1000"

text \<open>\<^verbatim>\<open>DAC::get_current_maximum\<close>; \<open>vcc\<close> is the supply voltage the DAC measured last.\<close>

definition get_current_maximum :: "Calibration \<Rightarrow> real \<Rightarrow> u8 \<Rightarrow> real" where
  "get_current_maximum s vcc dac =
     vcc * ((if dac \<noteq> 0 then GAIN_2_BASE else GAIN_1_BASE)
            + (if dac \<noteq> 0 then gain_2_offset s else gain_1_offset s))"

section \<open>calibration.cpp: constants, persistence, startup\<close>

definition CALIB_VCO_FREQ_FILTER_K :: real where
  "CALIB_VCO_FREQ_FILTER_K = 994 / 1000"

definition CALIB_VCO_START_DEV_CENTS :: i16 where
  "CALIB_VCO_START_DEV_CENTS = 10"

definition BTN_DEBOUNCE :: u64 where
  "BTN_DEBOUNCE = 240"

definition BTN_LONG_PRESS :: u64 where
  "BTN_LONG_PRESS = 1000"

definition CALIB_VCO_START_DELAY_INIT :: u64 where
  "CALIB_VCO_START_DELAY_INIT = 5000"

definition CALIB_VCO_START_DELAY_LINEARITY :: u64 where
  "CALIB_VCO_START_DELAY_LINEARITY = 2000"

definition CALIB_VCO_DELAY_BETWEEN_MV :: u64 where
  "CALIB_VCO_DELAY_BETWEEN_MV = 10"

definition CALIB_VCO_MV_MIN :: real where
  "CALIB_VCO_MV_MIN = 10"

definition CALIB_VCO_MAX_SCALE :: real where
  "CALIB_VCO_MAX_SCALE = 95 / 100"

definition CALIB_DAC_TARGET_GAIN_1 :: real where
  "CALIB_DAC_TARGET_GAIN_1 = 3000"

definition CALIB_DAC_TARGET_GAIN_2 :: real where
  "CALIB_DAC_TARGET_GAIN_2 = 3000"

definition VCO_LAST_CENTS_STAB :: nat where
  "VCO_LAST_CENTS_STAB = 5"

definition dip_to_gain_offset :: "u8 \<Rightarrow> real" where
  "dip_to_gain_offset dip_switch_state =
     real (unat (dip_switch_state AND 0x7F))
       / (if dip_switch_state AND 0x80 \<noteq> 0 then 1000 else - 1000)"

definition read_matrices :: "Calibration \<Rightarrow> Calibration" where
  "read_matrices s = s\<lparr>calib_matrix_1 := eeprom_matrix_1 s, calib_matrix_2 := eeprom_matrix_2 s\<rparr>"

definition write_matrices :: "Calibration \<Rightarrow> Calibration" where
  "write_matrices s = s\<lparr>eeprom_matrix_1 := calib_matrix_1 s, eeprom_matrix_2 := calib_matrix_2 s\<rparr>"

text \<open>The object \<^verbatim>\<open>Calibration calibration;\<close> has static storage: every field starts as
  zero. \<open>e1\<close>, \<open>e2\<close>, \<open>g1\<close>, \<open>g2\<close> are the contents of the EEPROM at power-on.\<close>

definition calibration_static :: "u8 \<Rightarrow> u8 \<Rightarrow> calibMatrix \<Rightarrow> calibMatrix \<Rightarrow> Calibration" where
  "calibration_static g1 g2 e1 e2 =
     \<lparr>active = False, stage = NONE, stage_vco = VcoNONE, gain_1_offset = 0, gain_2_offset = 0,
      tuner_deviation_cents = 0, vco_calib_progress = 0, stage_last = NONE, btn_timer = 0,
      btn_handled = False, time_last = 0, frequency_raw = 0, frequency = 0, target_frequency = 0,
      calib_matrix_1 = \<lparr>note_min = 0, note_max = 0, matrix = replicate MATRIX_LEN 0\<rparr>,
      calib_matrix_2 = \<lparr>note_min = 0, note_max = 0, matrix = replicate MATRIX_LEN 0\<rparr>,
      vco_calib_timer = 0, mv_current = 0, vco_cents_last = 0,
      vco_cents_buffer = replicate VCO_LAST_CENTS_STAB 0, vco_note_closest_mv = 0,
      vco_cents_buffer_counter = 0, address_last = 0, dac_1_target = 0, dac_2_target = 0,
      eeprom_gain_1 = g1, eeprom_gain_2 = g2, eeprom_matrix_1 = e1, eeprom_matrix_2 = e2\<rparr>"

text \<open>\<^verbatim>\<open>Calibration::init_check\<close>; \<open>btn_pressed\<close> is the button sampled at startup.\<close>

definition init_check :: "Calibration \<Rightarrow> bool \<Rightarrow> Calibration" where
  "init_check s btn_pressed =
     (let s1 = read_matrices
                 (s\<lparr>gain_1_offset := dip_to_gain_offset (eeprom_gain_1 s),
                    gain_2_offset := dip_to_gain_offset (eeprom_gain_2 s)\<rparr>);
          s2 = s1\<lparr>active := btn_pressed\<rparr>
      in if \<not> active s2 then s2
         else s2\<lparr>btn_handled := True, btn_timer := 1, stage := PREP_GAIN_1\<rparr>)"

section \<open>calibration.cpp: the button\<close>

definition btn_short_press :: "Calibration \<Rightarrow> Calibration" where
  "btn_short_press s =
     dac_set
       (case stage s of
          PREP_GAIN_1 \<Rightarrow> s\<lparr>stage := PREP_GAIN_2\<rparr>
        | PREP_GAIN_2 \<Rightarrow> s\<lparr>stage := PREP_TUNER\<rparr>
        | PREP_TUNER \<Rightarrow> s\<lparr>stage := PREP_VCO_1\<rparr>
        | PREP_VCO_1 \<Rightarrow> s\<lparr>stage := PREP_VCO_2\<rparr>
        | PREP_VCO_2 \<Rightarrow> s\<lparr>stage := PREP_RESET_VCO_1\<rparr>
        | PREP_RESET_VCO_1 \<Rightarrow> s\<lparr>stage := PREP_RESET_VCO_2\<rparr>
        | PREP_RESET_VCO_2 \<Rightarrow> s\<lparr>stage := PREP_GAIN_1\<rparr>
        | DONE \<Rightarrow> s\<lparr>stage := (if stage_last s = VCO_1 then PREP_VCO_2 else PREP_RESET_VCO_1)\<rparr>
        | _ \<Rightarrow> s) 0 0"

text \<open>The two assignments
  \<^verbatim>\<open>(stage == CalibStage::PREP_VCO_1 ? calib_matrix_1 : calib_matrix_2).note_min = 255U\<close> and
  \<^verbatim>\<open>(...).note_max = 255U\<close>, which the cases PREP\_VCO\_x and PREP\_RESET\_VCO\_x of
  \<^verbatim>\<open>btn_long_press\<close> both contain with this very condition.\<close>

definition clear_bounds :: "Calibration \<Rightarrow> Calibration" where
  "clear_bounds s =
     (let s1 = (if stage s = PREP_VCO_1
                then s\<lparr>calib_matrix_1 := (calib_matrix_1 s)\<lparr>note_min := 255\<rparr>\<rparr>
                else s\<lparr>calib_matrix_2 := (calib_matrix_2 s)\<lparr>note_min := 255\<rparr>\<rparr>)
      in if stage s1 = PREP_VCO_1
         then s1\<lparr>calib_matrix_1 := (calib_matrix_1 s1)\<lparr>note_max := 255\<rparr>\<rparr>
         else s1\<lparr>calib_matrix_2 := (calib_matrix_2 s1)\<lparr>note_max := 255\<rparr>\<rparr>)"

text \<open>\<^verbatim>\<open>Calibration::btn_long_press\<close>; \<open>dip\<close> is \<^verbatim>\<open>dip_switch.states\<close>.\<close>

definition btn_long_press :: "Calibration \<Rightarrow> u8 \<Rightarrow> Calibration" where
  "btn_long_press s dip =
     (case stage s of
        PREP_GAIN_1 \<Rightarrow> (dac_set s CALIB_DAC_TARGET_GAIN_1 0)\<lparr>stage := GAIN_1\<rparr>
      | PREP_GAIN_2 \<Rightarrow> (dac_set s 0 CALIB_DAC_TARGET_GAIN_2)\<lparr>stage := GAIN_2\<rparr>
      | GAIN_1 \<Rightarrow> (dac_set (s\<lparr>eeprom_gain_1 := dip\<rparr>) 0 0)\<lparr>stage := PREP_GAIN_2\<rparr>
      | GAIN_2 \<Rightarrow> (dac_set (s\<lparr>eeprom_gain_2 := dip\<rparr>) 0 0)\<lparr>stage := PREP_TUNER\<rparr>
      | PREP_TUNER \<Rightarrow> s\<lparr>tuner_deviation_cents := 0, frequency := 0, stage := TUNER\<rparr>
      | TUNER \<Rightarrow> dac_set (s\<lparr>tuner_deviation_cents := 0, stage := PREP_VCO_1\<rparr>) 0 0
      | PREP_VCO_1 \<Rightarrow>
          (clear_bounds s)\<lparr>stage := VCO_1, stage_vco := VcoTUNER, frequency := 0,
                            vco_calib_timer := 0, vco_calib_progress := 0\<rparr>
      | PREP_VCO_2 \<Rightarrow>
          (clear_bounds s)\<lparr>stage := VCO_2, stage_vco := VcoTUNER, frequency := 0,
                            vco_calib_timer := 0, vco_calib_progress := 0\<rparr>
      | PREP_RESET_VCO_1 \<Rightarrow> (write_matrices (clear_bounds s))\<lparr>stage := PREP_RESET_VCO_2\<rparr>
      | PREP_RESET_VCO_2 \<Rightarrow> (write_matrices (clear_bounds s))\<lparr>stage := PREP_GAIN_1\<rparr>
      | _ \<Rightarrow> s)"

text \<open>\<^verbatim>\<open>Calibration::btn\<close>; \<open>time\<close> is \<^verbatim>\<open>millis()\<close>, \<open>btn_pressed\<close> the pin read.\<close>

definition btn :: "Calibration \<Rightarrow> u64 \<Rightarrow> bool \<Rightarrow> u8 \<Rightarrow> Calibration" where
  "btn s time btn_pressed dip =
     (let s1 = (if btn_timer s > time then s\<lparr>btn_timer := time\<rparr> else s);
          s2 = (if btn_pressed \<and> btn_timer s1 = 0
                then s1\<lparr>btn_timer := time, btn_handled := False\<rparr> else s1);
          s3 = (if \<not> btn_pressed \<and> btn_timer s2 \<noteq> 0 \<and> time - btn_timer s2 \<ge> BTN_DEBOUNCE
                then (if \<not> btn_handled s2
                      then btn_short_press (s2\<lparr>btn_timer := 0, btn_handled := True\<rparr>)
                      else s2\<lparr>btn_timer := 0\<rparr>)
                else s2)
      in if btn_pressed \<and> \<not> btn_handled s3 \<and> btn_timer s3 \<noteq> 0
            \<and> time - btn_timer s3 \<ge> BTN_LONG_PRESS
         then btn_long_press (s3\<lparr>btn_handled := True\<rparr>) dip
         else s3)"

text \<open>Which handler one call of \<^verbatim>\<open>btn\<close> runs, and what it does to the pair
  (\<^verbatim>\<open>btn_timer\<close>, \<^verbatim>\<open>btn_handled\<close>): the same four tests in the same order, with the
  handler named instead of run.\<close>

datatype ButtonEvent = ShortPress | LongPress

definition btn_classify :: "u64 \<times> bool \<Rightarrow> u64 \<Rightarrow> bool \<Rightarrow> (u64 \<times> bool) \<times> ButtonEvent option" where
  "btn_classify th time btn_pressed =
     (let (timer0, handled0) = th;
          timer1 = (if timer0 > time then time else timer0);
          (timer2, handled2) = (if btn_pressed \<and> timer1 = 0 then (time, False) else (timer1, handled0));
          released = (\<not> btn_pressed \<and> timer2 \<noteq> 0 \<and> time - timer2 \<ge> BTN_DEBOUNCE);
          timer3 = (if released then 0 else timer2);
          short = (released \<and> \<not> handled2);
          handled3 = (if short then True else handled2);
          long = (btn_pressed \<and> \<not> handled3 \<and> timer3 \<noteq> 0 \<and> time - timer3 \<ge> BTN_LONG_PRESS)
      in ((timer3, (if long then True else handled3)),
          (if short then Some ShortPress else if long then Some LongPress else None)))"

text \<open>The events of a run of \<^verbatim>\<open>btn\<close> over the samples (\<^verbatim>\<open>millis()\<close>, pin) of successive
  loop iterations.\<close>

fun btn_run :: "u64 \<times> bool \<Rightarrow> (u64 \<times> bool) list \<Rightarrow> ButtonEvent list" where
  "btn_run th [] = []"
| "btn_run th ((time, btn_pressed) # samples) =
     (case btn_classify th time btn_pressed of
        (th', None) \<Rightarrow> btn_run th' samples
      | (th', Some ev) \<Rightarrow> ev # btn_run th' samples)"

section \<open>calibration.cpp: tuner and linearity sweep\<close>

text \<open>\<^verbatim>\<open>Calibration::tuner\<close>; \<open>dip\<close> is \<^verbatim>\<open>dip_switch.states\<close>.\<close>

definition tuner :: "Calibration \<Rightarrow> u8 \<Rightarrow> fault + Calibration" where
  "tuner s dip =
     (let octave0 = drop_bit 4 (dip AND 0xF0);
          target_octave = (if octave0 > 8 then 8 else octave0);
          note0 = dip AND 0x0F;
          target_note = (if note0 > 11 then 11 else note0);
          target_cents = ((ucast target_octave :: u16) * 12 + ucast target_note + 12) * 100
      in and_then (note_to_mv_cal s 0 target_cents) (\<lambda>mv_1.
         and_then (note_to_mv_cal s 1 target_cents) (\<lambda>mv_2.
           let s1 = (dac_set s mv_1 mv_2)\<lparr>target_frequency := note_to_hz target_cents\<rparr>
           in Inr (s1\<lparr>tuner_deviation_cents :=
                        hz_to_cents_deviation (target_frequency s1) (frequency s1)\<rparr>))))"

text \<open>Arduino's macro \<^verbatim>\<open>abs(x) ((x)>0?(x):-(x))\<close> on a 16-bit \<^verbatim>\<open>int\<close>: the negation
  of the least value wraps to itself.\<close>

definition abs_int :: "i16 \<Rightarrow> i16" where
  "abs_int x = (if 0 <s x then x else - x)"

text \<open>\<^verbatim>\<open>stage == CalibStage::VCO_1 ? 0U : 1U\<close>\<close>

definition vco_channel :: "Calibration \<Rightarrow> u8" where
  "vco_channel s = (if stage s = VCO_1 then 0 else 1)"

text \<open>\<^verbatim>\<open>stage == CalibStage::VCO_1 ? &calib_matrix_1 : &calib_matrix_2\<close>, read and
  written back.\<close>

definition vco_matrix :: "Calibration \<Rightarrow> calibMatrix" where
  "vco_matrix s = (if stage s = VCO_1 then calib_matrix_1 s else calib_matrix_2 s)"

definition vco_matrix_update :: "Calibration \<Rightarrow> calibMatrix \<Rightarrow> Calibration" where
  "vco_matrix_update s m =
     (if stage s = VCO_1 then s\<lparr>calib_matrix_1 := m\<rparr> else s\<lparr>calib_matrix_2 := m\<rparr>)"

text \<open>Lines 349 to 385 of \<^verbatim>\<open>Calibration::vco\<close>: the next millivolt, the progress, the
  end of the sweep with its last write at \<^verbatim>\<open>matrix->note_max - 12U\<close>, and
  \<^verbatim>\<open>vco_cents_last = vco_cents\<close>.\<close>

definition vco_advance :: "Calibration \<Rightarrow> u16 \<Rightarrow> real \<Rightarrow> fault + Calibration" where
  "vco_advance s vco_cents vcc =
     (let s1 = s\<lparr>mv_current := mv_current s + 1\<rparr>;
          s2 = set_dac_cv s1 (vco_channel s1) (real (unat (mv_current s1)));
          s3 = s2\<lparr>vco_cents_buffer := replicate VCO_LAST_CENTS_STAB 0,
                  vco_cents_buffer_counter := 0\<rparr>;
          mv_end = get_current_maximum s3 vcc (vco_channel s3) * CALIB_VCO_MAX_SCALE;
          progress_1 = real (unat vco_cents) / 12700;
          progress_2 = real (unat (mv_current s3)) / mv_end;
          s4 = s3\<lparr>vco_calib_progress := max progress_1 progress_2\<rparr>
      in and_then
           (if real (unat (mv_current s4)) \<ge> mv_end \<or> vco_cents > 12700
            then
              let m = (vco_matrix s4)\<lparr>note_max := ucast (vco_cents_last s4 div 100)\<rparr>
              in and_then (mat_write (matrix m) (note_index (note_max m)) (vco_note_closest_mv s4))
                   (\<lambda>tbl.
                      let s5 = write_matrices (vco_matrix_update s4 (m\<lparr>matrix := tbl\<rparr>))
                      in Inr (dac_set (s5\<lparr>vco_calib_timer := 0, stage_vco := VcoTUNER,
                                         stage_last := stage s5, stage := DONE\<rparr>) 0 0))
            else Inr s4)
           (\<lambda>s6. Inr (s6\<lparr>vco_cents_last := vco_cents\<rparr>)))"

text \<open>Lines 294 to 347: what a stabilized sample does to the table. The branch that sets
  ERROR returns from \<^verbatim>\<open>vco\<close>; every other one goes on to \<open>vco_advance\<close>.\<close>

definition vco_sample :: "Calibration \<Rightarrow> u16 \<Rightarrow> real \<Rightarrow> fault + Calibration" where
  "vco_sample s vco_cents vcc =
     (if vco_cents \<ge> 1200 \<and> vco_cents \<le> 12700
         \<and> vco_cents_last s \<ge> 1200 \<and> vco_cents_last s \<le> 12700
      then
        let vco_note = (ucast (vco_cents div 100) :: u8);
            vco_note_last = (ucast (vco_cents_last s div 100) :: u8);
            s1 = (if vco_note = vco_note_last \<and> vco_cents mod 100 < vco_cents_last s mod 100
                  then s\<lparr>vco_note_closest_mv := mv_current s\<rparr> else s)
        in if vco_note > vco_note_last
           then
             let m = (if note_min (vco_matrix s1) > 127
                      then (vco_matrix s1)\<lparr>note_min := vco_note_last\<rparr> else vco_matrix s1);
                 s2 = vco_matrix_update s1 m;
                 address = (ucast ((ucast vco_note_last :: u16) - 12) :: u8)
             in if address_last s2 \<noteq> 255
                   \<and> (address < address_last s2 \<or> address - address_last s2 > 1)
                then Inr (s2\<lparr>stage := ERROR\<rparr>)
                else if address_last s2 = 255 \<or> address > address_last s2
                then and_then (mat_write (matrix m) (unat address) (vco_note_closest_mv s2))
                       (\<lambda>tbl. vco_advance
                                 ((vco_matrix_update s2 (m\<lparr>matrix := tbl\<rparr>))
                                    \<lparr>address_last := address,
                                     vco_note_closest_mv := mv_current s2\<rparr>)
                                 vco_cents vcc)
                else vco_advance s2 vco_cents vcc
           else vco_advance s1 vco_cents vcc
      else vco_advance (s\<lparr>vco_note_closest_mv := mv_current s\<rparr>) vco_cents vcc)"

text \<open>The test of the stabilization window: every buffered reading is set and within one
  cent of the new one. The difference is a 16-bit \<^verbatim>\<open>int\<close>, compared as unsigned with
  \<^verbatim>\<open>1U\<close>.\<close>

definition stabilized :: "u16 list \<Rightarrow> u16 \<Rightarrow> bool" where
  "stabilized buffer vco_cents =
     list_all (\<lambda>b. \<not> (b = 0 \<or> abs_int (vco_cents - b) > 1)) buffer"

text \<open>The sub-stage LINEARITY of \<^verbatim>\<open>Calibration::vco\<close> up to line 287; \<open>vco_cents\<close> is
  \<^verbatim>\<open>hz_to_note(frequency)\<close>.\<close>

definition vco_linearity :: "Calibration \<Rightarrow> u64 \<Rightarrow> u16 \<Rightarrow> real \<Rightarrow> fault + Calibration" where
  "vco_linearity s time vco_cents vcc =
     (if vco_calib_timer s \<noteq> 0 \<and> vco_calib_timer s < time
         \<and> time - vco_calib_timer s < CALIB_VCO_DELAY_BETWEEN_MV
      then Inr s
      else
        let s1 = (if vco_calib_timer s = 0 then s\<lparr>vco_calib_timer := time\<rparr> else s);
            stab = stabilized (vco_cents_buffer s1) vco_cents;
            counter = (if vco_cents_buffer_counter s1 < 4
                       then vco_cents_buffer_counter s1 + 1 else 0);
            s2 = s1\<lparr>vco_cents_buffer_counter := counter,
                    vco_cents_buffer := (vco_cents_buffer s1)[unat counter := vco_cents]\<rparr>
        in if \<not> stab then Inr s2
           else vco_sample (s2\<lparr>vco_calib_timer := time\<rparr>) vco_cents vcc)"

text \<open>\<^verbatim>\<open>Calibration::vco\<close>; \<open>time\<close> is \<^verbatim>\<open>millis()\<close>.\<close>

definition vco :: "Calibration \<Rightarrow> u64 \<Rightarrow> real \<Rightarrow> fault + Calibration" where
  "vco s time vcc =
     (case stage_vco s of
        VcoTUNER \<Rightarrow>
          let s1 = (if CALIB_VCO_START_DEV_CENTS <s abs_int (tuner_deviation_cents s)
                    then s\<lparr>vco_calib_timer := time\<rparr> else s)
          in if vco_calib_timer s1 = 0 then Inr (s1\<lparr>vco_calib_timer := time\<rparr>)
             else if vco_calib_timer s1 > time
                     \<or> time - vco_calib_timer s1 > CALIB_VCO_START_DELAY_INIT
             then Inr ((set_dac_cv (s1\<lparr>vco_calib_timer := 0, stage_vco := LOWER\<rparr>)
                          (vco_channel s1) CALIB_VCO_MV_MIN)\<lparr>frequency := 0\<rparr>)
             else Inr s1
      | LOWER \<Rightarrow>
          if vco_calib_timer s = 0 then Inr (s\<lparr>vco_calib_timer := time\<rparr>)
          else if vco_calib_timer s > time
                  \<or> time - vco_calib_timer s > CALIB_VCO_START_DELAY_LINEARITY
          then Inr (s\<lparr>vco_calib_timer := 0,
                      vco_cents_buffer := replicate VCO_LAST_CENTS_STAB 0,
                      vco_cents_buffer_counter := 0,
                      vco_cents_last := 0,
                      vco_note_closest_mv := 10,
                      mv_current := 10,
                      stage_vco := LINEARITY,
                      address_last := 255\<rparr>)
          else Inr s
      | LINEARITY \<Rightarrow> vco_linearity s time (hz_to_note (frequency s)) vcc
      | VcoNONE \<Rightarrow> Inr s)"

section \<open>calibration.cpp: interrupt and main loop\<close>

text \<open>\<^verbatim>\<open>Calibration::handle_interrupt\<close>; \<open>time\<close> is \<^verbatim>\<open>micros()\<close>.\<close>

definition handle_interrupt :: "Calibration \<Rightarrow> u64 \<Rightarrow> Calibration" where
  "handle_interrupt s time =
     (if time_last s = 0 \<or> time_last s \<ge> time then s\<lparr>time_last := time\<rparr>
      else s\<lparr>frequency_raw := 1000000 / real (unat (time - time_last s)), time_last := time\<rparr>)"

text \<open>What one iteration of \<^verbatim>\<open>loop\<close> reads from outside: the two reads of \<^verbatim>\<open>millis()\<close>
  (in \<^verbatim>\<open>btn\<close> and in \<^verbatim>\<open>vco\<close>), the read of \<^verbatim>\<open>micros()\<close>, the button pin, the DIP
  switches and the supply voltage of the DAC. The interrupt handler runs between
  iterations.\<close>

record LoopInput =
  in_btn_millis :: u64
  in_btn_pressed :: bool
  in_dip :: u8
  in_micros :: u64
  in_vco_millis :: u64
  in_vcc :: real

text \<open>Lines 163 to 178: button, live gain offset, frequency filter.\<close>

definition loop_read :: "Calibration \<Rightarrow> LoopInput \<Rightarrow> Calibration" where
  "loop_read s e =
     (let s1 = btn s (in_btn_millis e) (in_btn_pressed e) (in_dip e);
          s2 = (if stage s1 = GAIN_1 then s1\<lparr>gain_1_offset := dip_to_gain_offset (in_dip e)\<rparr>
                else if stage s1 = GAIN_2
                then s1\<lparr>gain_2_offset := dip_to_gain_offset (in_dip e)\<rparr>
                else s1)
      in if frequency s2 \<le> 1 then s2\<lparr>frequency := frequency_raw s2\<rparr>
         else s2\<lparr>frequency := frequency s2 * CALIB_VCO_FREQ_FILTER_K
                                 + frequency_raw s2 * (1 - CALIB_VCO_FREQ_FILTER_K)\<rparr>)"

text \<open>Lines 180 to 193: the check that the frequency is still measured. The flag says
  that \<^verbatim>\<open>loop\<close> returns here.\<close>

definition loop_signal_check :: "Calibration \<Rightarrow> u64 \<Rightarrow> Calibration \<times> bool" where
  "loop_signal_check s time =
     (if frequency s > 0 \<and> time - time_last s > 2000000
      then
        let s1 = s\<lparr>frequency := 0, frequency_raw := 0\<rparr>
        in if (stage s1 = VCO_1 \<or> stage s1 = VCO_2) \<and> stage_vco s1 = LINEARITY
           then (s1\<lparr>stage := ERROR\<rparr>, True)
           else (s1, False)
      else (s, False))"

text \<open>Lines 195 to 202: tuner and sweep.\<close>

definition loop_dispatch :: "Calibration \<Rightarrow> LoopInput \<Rightarrow> fault + Calibration" where
  "loop_dispatch s e =
     and_then
       (if stage s = TUNER \<or> ((stage s = VCO_1 \<or> stage s = VCO_2) \<and> stage_vco s = VcoTUNER)
        then tuner s (in_dip e) else Inr s)
       (\<lambda>s1. if stage s1 = VCO_1 \<or> stage s1 = VCO_2
             then vco s1 (in_vco_millis e) (in_vcc e) else Inr s1)"

text \<open>\<^verbatim>\<open>Calibration::loop\<close>\<close>

definition loop :: "Calibration \<Rightarrow> LoopInput \<Rightarrow> fault + Calibration" where
  "loop s e =
     (if \<not> active s then Inr s
      else if stage s = ERROR then Inr (dac_set s 0 0)
      else
        let (s1, returned) = loop_signal_check (loop_read s e) (in_micros e)
        in if returned then Inr s1 else loop_dispatch s1 e)"

text \<open>Successive iterations of \<^verbatim>\<open>loop\<close>, and of the sweep.\<close>

fun loop_run :: "Calibration \<Rightarrow> LoopInput list \<Rightarrow> fault + Calibration" where
  "loop_run s [] = Inr s"
| "loop_run s (e # es) = and_then (loop s e) (\<lambda>s1. loop_run s1 es)"

fun vco_linearity_run :: "Calibration \<Rightarrow> (u64 \<times> u16) list \<Rightarrow> real \<Rightarrow> fault + Calibration" where
  "vco_linearity_run s [] vcc = Inr s"
| "vco_linearity_run s ((time, vco_cents) # xs) vcc =
     and_then (vco_linearity s time vco_cents vcc) (\<lambda>s1. vco_linearity_run s1 xs vcc)"

text \<open>Successive calls of \<^verbatim>\<open>vco\<close> at the given readings of \<^verbatim>\<open>millis()\<close>.\<close>

fun vco_run :: "Calibration \<Rightarrow> u64 list \<Rightarrow> real \<Rightarrow> fault + Calibration" where
  "vco_run s [] vcc = Inr s"
| "vco_run s (time # ts) vcc = and_then (vco s time vcc) (\<lambda>s1. vco_run s1 ts vcc)"

section \<open>Notions of the statements\<close>

text \<open>The lower note of the bracket as a number: the whole note of the query, moved into
  \<open>note_min .. note_max - 1\<close>.\<close>

definition bracket_lo :: "calibMatrix \<Rightarrow> u16 \<Rightarrow> nat" where
  "bracket_lo m cents = min (max (unat cents div 100) (unat (note_min m))) (unat (note_max m) - 1)"

text \<open>The stored entries from \<open>note_min\<close> to \<open>note_max\<close> do not decrease.\<close>

definition table_nondecreasing :: "calibMatrix \<Rightarrow> bool" where
  "table_nondecreasing m =
     sorted (take (unat (note_max m) - unat (note_min m) + 1)
                  (drop (unat (note_min m) - 12) (matrix m)))"

section \<open>Concrete states\<close>

text \<open>An erased EEPROM reads 0xFF in every cell: both bounds are the sentinel 255.\<close>

definition blank_matrix :: calibMatrix where
  "blank_matrix = \<lparr>note_min = 255, note_max = 255, matrix = replicate MATRIX_LEN 65535\<rparr>"

text \<open>The table of the end-to-end example: bounds 48 and 72, entry 48 is 2500 mV, entry 72
  is 5500 mV, every other entry 0.\<close>

definition example_matrix :: calibMatrix where
  "example_matrix =
     \<lparr>note_min = 48, note_max = 72, matrix = (replicate MATRIX_LEN 0)[48 := 2500, 72 := 5500]\<rparr>"

text \<open>The state after a start without the button held, with the given tables in the
  EEPROM.\<close>

definition boot_normal :: "calibMatrix \<Rightarrow> calibMatrix \<Rightarrow> Calibration" where
  "boot_normal e1 e2 = init_check (calibration_static 0 0 e1 e2) False"

text \<open>Calibration mode (button held at start) with the example table stored for both
  channels, then five short presses: the stage "reset the table of channel 1".\<close>

definition reset_vco_1_selected :: Calibration where
  "reset_vco_1_selected =
     (btn_short_press ^^ 5) (init_check (calibration_static 0 0 example_matrix example_matrix) True)"

text \<open>Two stored tables with the bounds 48 and 50: one rising, one falling.\<close>

definition ramp_matrix :: calibMatrix where
  "ramp_matrix =
     \<lparr>note_min = 48, note_max = 50,
      matrix = (replicate MATRIX_LEN 0)[36 := 1000, 37 := 2000, 38 := 3000]\<rparr>"

definition falling_matrix :: calibMatrix where
  "falling_matrix =
     \<lparr>note_min = 48, note_max = 50,
      matrix = (replicate MATRIX_LEN 0)[36 := 3000, 37 := 2000, 38 := 1000]\<rparr>"

text \<open>A stored table with the bounds 5 and 7, below note 12, every entry 1000 mV.\<close>

definition low_matrix :: calibMatrix where
  "low_matrix = \<lparr>note_min = 5, note_max = 7, matrix = replicate MATRIX_LEN 1000\<rparr>"

text \<open>Calibration mode with an erased EEPROM, three short presses and a long press: the
  sweep of channel 1 starts.\<close>

definition vco_1_entered :: Calibration where
  "vco_1_entered =
     btn_long_press
       ((btn_short_press ^^ 3) (init_check (calibration_static 0 0 blank_matrix blank_matrix) True))
       0"

text \<open>With the tuner deviation at 0, four calls of \<^verbatim>\<open>vco\<close> (at 1 ms, 5002 ms, 5003 ms and
  7004 ms, supply 5000 mV) pass the sub-stages TUNER and LOWER and enter LINEARITY.\<close>

definition linearity_entered :: "fault + Calibration" where
  "linearity_entered = vco_run vco_1_entered [1, 5002, 5003, 7004] 5000"

definition linearity_start :: Calibration where
  "linearity_start =
     vco_1_entered\<lparr>vco_calib_timer := 0, stage_vco := LINEARITY, dac_1_target := 10,
                    vco_cents_buffer := replicate VCO_LAST_CENTS_STAB 0,
                    vco_cents_buffer_counter := 0, vco_cents_last := 0,
                    vco_note_closest_mv := 10, mv_current := 10, address_last := 255\<rparr>"

text \<open>Six calls of the sweep, 100 ms apart from \<open>t\<close>, that all read \<open>c\<close> cents: the sixth
  finds the window of five readings filled and stable.\<close>

definition steady :: "u64 \<Rightarrow> u16 \<Rightarrow> (u64 \<times> u16) list" where
  "steady t c = [(t, c), (t + 100, c), (t + 200, c), (t + 300, c), (t + 400, c), (t + 500, c)]"

text \<open>Stable readings of 6050, 6110 and 6210 cents, then of 6050 cents again: the pitch
  rises through the notes 60, 61 and 62 and falls back to 60.\<close>

definition drop_run :: "(u64 \<times> u16) list" where
  "drop_run = steady 7100 6050 @ steady 7700 6110 @ steady 8300 6210 @ steady 8900 6050"

text \<open>A state in the middle of the sweep of channel 1: the entries of the notes 60 and 61
  are written (addresses 48 and 49), the previous stable reading was \<open>prev\<close>, and the
  window holds five times \<open>reading\<close>. The second state is what one more call makes of
  \<open>mid_sweep 6210 6310\<close>.\<close>

definition mid_sweep :: "u16 \<Rightarrow> u16 \<Rightarrow> Calibration" where
  "mid_sweep prev reading =
     linearity_start
       \<lparr>vco_calib_timer := 8800, vco_cents_buffer := replicate VCO_LAST_CENTS_STAB reading,
        vco_cents_last := prev, address_last := 49, mv_current := 13, vco_note_closest_mv := 12,
        calib_matrix_1 :=
          \<lparr>note_min = 60, note_max = 255,
           matrix = (replicate MATRIX_LEN 65535)[48 := 10, 49 := 11]\<rparr>\<rparr>"

definition mid_sweep_written :: Calibration where
  "mid_sweep_written =
     (mid_sweep 6310 0)
       \<lparr>vco_calib_timer := 9400, address_last := 50, mv_current := 14,
        vco_note_closest_mv := 13, dac_1_target := 14,
        vco_calib_progress := 6310 / 12700,
        calib_matrix_1 :=
          \<lparr>note_min = 60, note_max = 255,
           matrix = (replicate MATRIX_LEN 65535)[48 := 10, 49 := 11, 50 := 12]\<rparr>\<rparr>"

text \<open>An iteration of the loop 9 s after start, button released; and a sweep state whose
  last edge came at 1 s with a reading of 440 Hz.\<close>

definition late_input :: LoopInput where
  "late_input =
     \<lparr>in_btn_millis = 9000, in_btn_pressed = False, in_dip = 0, in_micros = 9000000,
      in_vco_millis = 9000, in_vcc = 5000\<rparr>"

definition measuring :: Calibration where
  "measuring = linearity_start\<lparr>frequency := 440, frequency_raw := 440, time_last := 1000000\<rparr>"

text \<open>The state after a start with the button held (calibration mode), erased EEPROM.\<close>

definition boot_calibration :: Calibration where
  "boot_calibration = init_check (calibration_static 0 0 blank_matrix blank_matrix) True"

section \<open>Direct note to millivolt conversion\<close>

lemma div_mod_1200_real: "real (n div 1200) + real (n mod 1200) / 1200 = real n / 1200"
proof -
  have "n = 1200 * (n div 1200) + n mod 1200" by simp
  then have "real n = real (1200 * (n div 1200) + n mod 1200)" by simp
  also have "\<dots> = 1200 * real (n div 1200) + real (n mod 1200)"
    by (simp only: of_nat_add of_nat_mult of_nat_numeral)
  finally show ?thesis by (simp add: field_simps)
qed

lemma note_to_mv_formula:
  assumes "1200 \<le> cents"
  shows "note_to_mv cents
         = 1000 * (real (unat cents div 1200) - 1 + real (unat cents mod 1200) / 1200)"
proof (cases "cents = 1200")
  case True
  then show ?thesis by (simp add: note_to_mv_def)
next
  case False
  with assms have gt: "\<not> cents \<le> 1200" by simp
  have n: "1200 \<le> unat cents" using assms by (simp add: word_le_nat_alt)
  have lt: "unat cents < 65536" using unsigned_less [of cents, where 'a=nat] by simp
  have q: "unat cents div 1200 < 256" using lt by simp
  have q1: "1 \<le> unat cents div 1200" using n by simp
  have a: "unat (ucast (cents div 1200) :: u8) = unat cents div 1200"
    using q by (simp add: unsigned_ucast_eq unat_div take_bit_nat_eq_self)
  have b: "unat (ucast (ucast (cents div 1200) :: u8) :: u16) = unat cents div 1200"
    using q a
    by (simp add: unsigned_ucast_eq unsigned_take_bit_eq take_bit_nat_eq_self unat_div)
  have c: "unat ((ucast (ucast (cents div 1200) :: u8) :: u16) - 1) = unat cents div 1200 - 1"
    using b q1 by (simp add: unat_sub word_le_nat_alt)
  have c': "real (unat ((ucast (ucast (cents div 1200) :: u8) :: u16) - 1))
            = real (unat cents div 1200) - 1"
    using q1 by (simp only: c of_nat_diff of_nat_1)
  have m: "unat (cents mod 1200) = unat cents mod 1200" by (simp add: unat_mod)
  show ?thesis by (simp only: note_to_mv_def Let_def gt if_False c' m)
qed

lemma note_to_mv_linear:
  assumes "1200 \<le> cents"
  shows "note_to_mv cents = 1000 * (real (unat cents) / 1200 - 1)"
  using note_to_mv_formula [OF assms] div_mod_1200_real [of "unat cents"]
  by (simp add: algebra_simps)

lemma note_to_mv_mono:
  assumes "1200 \<le> c1" and "c1 \<le> c2"
  shows "note_to_mv c1 \<le> note_to_mv c2"
proof -
  have "1200 \<le> c2" using assms by simp
  moreover have "unat c1 \<le> unat c2" using assms(2) by (simp add: word_le_nat_alt)
  then have "real (unat c1) \<le> real (unat c2)" by (rule of_nat_mono)
  ultimately show ?thesis using assms(1) by (simp add: note_to_mv_linear)
qed

text \<open>The test of \<open>note_to_mv_cal\<close> on the channel's own table: the first table for
  channel 0, the second for every other channel number.\<close>

lemma no_calibration_own:
  assumes "m = (if channel = 0 then calib_matrix_1 s else calib_matrix_2 s)"
  shows "no_calibration s channel
         = (127 < note_min m \<or> 127 < note_max m \<or> note_min m = 0 \<or> note_max m \<le> note_min m
            \<or> stage s = PREP_VCO_1 \<or> stage s = PREP_VCO_2 \<or> stage s = VCO_1 \<or> stage s = VCO_2)"
  using assms by (simp add: no_calibration_def matrix_of_def Let_def)

lemma boot_normal_tables:
  "calib_matrix_1 (boot_normal e1 e2) = e1 \<and> calib_matrix_2 (boot_normal e1 e2) = e2
   \<and> stage (boot_normal e1 e2) = NONE"
  by (simp add: boot_normal_def init_check_def calibration_static_def read_matrices_def)

text \<open>
  C5. Let \<open>m\<close> be the channel's own table (the first for channel 0, the second otherwise).
  When \<open>m\<close> is not a valid stored calibration (a bound above 127, a lower bound of 0, or
  bounds not increasing), or the stage is one of the four sweep stages, a query outside
  1200..12700 cents returns 0 mV; a query inside returns the direct formula
  1000 * (octave - 1 + fractional note) with octave = cents div 1200 and fractional note
  = (cents mod 1200) / 1200, which is 0 mV at 1200 cents and does not decrease as the cents
  grow from 1200 to 12700. The table of the other channel plays no part.
\<close>

theorem note_to_mv_cal_uncalibrated:
  assumes own: "m = (if channel = 0 then calib_matrix_1 s else calib_matrix_2 s)"
    and inv: "127 < note_min m \<or> 127 < note_max m \<or> note_min m = 0 \<or> note_max m \<le> note_min m
         \<or> stage s = PREP_VCO_1 \<or> stage s = PREP_VCO_2 \<or> stage s = VCO_1 \<or> stage s = VCO_2"
  shows "(cents < 1200 \<or> cents > 12700 \<longrightarrow> note_to_mv_cal s channel cents = Inr 0)
       \<and> (1200 \<le> cents \<and> cents \<le> 12700 \<longrightarrow>
            note_to_mv_cal s channel cents
            = Inr (1000 * (real (unat cents div 1200) - 1 + real (unat cents mod 1200) / 1200)))
       \<and> note_to_mv_cal s channel 1200 = Inr 0
       \<and> (\<forall>c1 c2. 1200 \<le> c1 \<and> c1 \<le> c2 \<and> c2 \<le> 12700 \<longrightarrow>
            (\<exists>v1 v2. note_to_mv_cal s channel c1 = Inr v1
                    \<and> note_to_mv_cal s channel c2 = Inr v2 \<and> v1 \<le> v2))"
proof (intro conjI allI impI)
  have nc: "no_calibration s channel"
    using inv unfolding no_calibration_own [OF own] .
  show "note_to_mv_cal s channel cents = Inr 0" if "cents < 1200 \<or> cents > 12700"
    using that by (simp add: note_to_mv_cal_def)
  show "note_to_mv_cal s channel cents
      = Inr (1000 * (real (unat cents div 1200) - 1 + real (unat cents mod 1200) / 1200))"
    if r: "1200 \<le> cents \<and> cents \<le> 12700"
  proof -
    have "note_to_mv_cal s channel cents = Inr (note_to_mv cents)"
      using r nc by (simp add: note_to_mv_cal_def not_less [symmetric])
    then show ?thesis using r note_to_mv_formula [of cents] by simp
  qed
  show "note_to_mv_cal s channel 1200 = Inr 0"
    using nc by (simp add: note_to_mv_cal_def note_to_mv_def)
  show "\<exists>v1 v2. note_to_mv_cal s channel c1 = Inr v1
      \<and> note_to_mv_cal s channel c2 = Inr v2 \<and> v1 \<le> v2"
    if r: "1200 \<le> c1 \<and> c1 \<le> c2 \<and> c2 \<le> 12700" for c1 c2 :: u16
  proof -
    have "1200 \<le> c2" and "c1 \<le> 12700" using r by auto
    with r have "note_to_mv_cal s channel c1 = Inr (note_to_mv c1)"
      and "note_to_mv_cal s channel c2 = Inr (note_to_mv c2)"
      using nc by (simp_all add: note_to_mv_cal_def not_less [symmetric])
    moreover have "note_to_mv c1 \<le> note_to_mv c2"
      using r note_to_mv_mono by blast
    ultimately show ?thesis by blast
  qed
qed

theorem note_to_mv_cal_uncalibrated_witness:
  "calib_matrix_1 (boot_normal blank_matrix example_matrix) = blank_matrix
   \<and> calib_matrix_2 (boot_normal blank_matrix example_matrix) = example_matrix
   \<and> 127 < note_min blank_matrix
   \<and> note_to_mv_cal (boot_normal blank_matrix example_matrix) 0 700 = Inr 0
   \<and> note_to_mv_cal (boot_normal blank_matrix example_matrix) 0 1200 = Inr 0
   \<and> note_to_mv_cal (boot_normal blank_matrix example_matrix) 0 3000
     = Inr (1000 * (real (unat (3000 :: u16) div 1200) - 1
                     + real (unat (3000 :: u16) mod 1200) / 1200))
   \<and> (\<exists>v1 v2. note_to_mv_cal (boot_normal blank_matrix example_matrix) 0 2400 = Inr v1
             \<and> note_to_mv_cal (boot_normal blank_matrix example_matrix) 0 3000 = Inr v2
             \<and> v1 \<le> v2)"
proof -
  have t: "calib_matrix_1 (boot_normal blank_matrix example_matrix) = blank_matrix"
    "calib_matrix_2 (boot_normal blank_matrix example_matrix) = example_matrix"
    using boot_normal_tables by simp_all
  have o: "blank_matrix = (if (0 :: u8) = 0 then calib_matrix_1 (boot_normal blank_matrix example_matrix)
                           else calib_matrix_2 (boot_normal blank_matrix example_matrix))"
    using t by simp
  have i: "127 < note_min blank_matrix" by (simp add: blank_matrix_def)
  then have h: "127 < note_min blank_matrix \<or> 127 < note_max blank_matrix
      \<or> note_min blank_matrix = 0 \<or> note_max blank_matrix \<le> note_min blank_matrix
      \<or> stage (boot_normal blank_matrix example_matrix) = PREP_VCO_1
      \<or> stage (boot_normal blank_matrix example_matrix) = PREP_VCO_2
      \<or> stage (boot_normal blank_matrix example_matrix) = VCO_1
      \<or> stage (boot_normal blank_matrix example_matrix) = VCO_2"
    by blast
  have a: "(700 :: u16) < 1200 \<or> (700 :: u16) > 12700" by simp
  have b: "(1200 :: u16) \<le> 3000 \<and> (3000 :: u16) \<le> 12700" by simp
  have c: "(1200 :: u16) \<le> 2400 \<and> (2400 :: u16) \<le> 3000 \<and> (3000 :: u16) \<le> 12700" by simp
  from note_to_mv_cal_uncalibrated [OF o h, of 700] a
  have "note_to_mv_cal (boot_normal blank_matrix example_matrix) 0 700 = Inr 0
      \<and> note_to_mv_cal (boot_normal blank_matrix example_matrix) 0 1200 = Inr 0" by blast
  moreover from note_to_mv_cal_uncalibrated [OF o h, of 3000] b
  have "note_to_mv_cal (boot_normal blank_matrix example_matrix) 0 3000
     = Inr (1000 * (real (unat (3000 :: u16) div 1200) - 1
                     + real (unat (3000 :: u16) mod 1200) / 1200))" by blast
  moreover from note_to_mv_cal_uncalibrated [OF o h, of 0] c
  have "\<exists>v1 v2. note_to_mv_cal (boot_normal blank_matrix example_matrix) 0 2400 = Inr v1
             \<and> note_to_mv_cal (boot_normal blank_matrix example_matrix) 0 3000 = Inr v2
             \<and> v1 \<le> v2" by blast
  ultimately show ?thesis using t i by blast
qed

section \<open>The end-to-end example\<close>

lemma boot_normal_example:
  "no_calibration (boot_normal blank_matrix example_matrix) 0
   \<and> \<not> no_calibration (boot_normal blank_matrix example_matrix) 1
   \<and> matrix_of (boot_normal blank_matrix example_matrix) 1 = example_matrix"
  by (simp add: no_calibration_def boot_normal_def init_check_def calibration_static_def
        read_matrices_def blank_matrix_def example_matrix_def matrix_of_def Let_def)

lemma example_matrix_entries:
  "note_min example_matrix = 48 \<and> note_max example_matrix = 72
   \<and> length (matrix example_matrix) = MATRIX_LEN
   \<and> matrix example_matrix ! 48 = 2500 \<and> matrix example_matrix ! 72 = 5500"
  by (simp add: example_matrix_def MATRIX_LEN_def)

text \<open>
  C1, as the code has it. For a channel without a valid stored calibration,
  \<open>note_to_mv_cal\<close> at 6000 cents returns 4000 mV. With the bounds 48 and 72 stored and the
  entries \<open>matrix[48] = 2500\<close> and \<open>matrix[72] = 5500\<close>, it returns 2500 mV: note 60 is
  bracketed by the adjacent notes 60 and 61, whose entries are \<open>matrix[48]\<close> and
  \<open>matrix[49]\<close>, and the query sits on the lower one. The two bounds are not the
  interpolation nodes.
\<close>

theorem note_to_mv_cal_6000:
  "(no_calibration s channel \<longrightarrow> note_to_mv_cal s channel 6000 = Inr 4000)
   \<and> (\<not> no_calibration s channel
      \<and> note_min (matrix_of s channel) = 48 \<and> note_max (matrix_of s channel) = 72
      \<and> length (matrix (matrix_of s channel)) = MATRIX_LEN
      \<and> matrix (matrix_of s channel) ! 48 = 2500 \<and> matrix (matrix_of s channel) ! 72 = 5500
      \<longrightarrow> note_to_mv_cal s channel 6000 = Inr 2500)"
  by (simp add: note_to_mv_cal_def Let_def bracket_def note_to_mv_def
      truncf_def note_index_def mat_read_def and_then_def map_f_def MATRIX_LEN_def)

theorem note_to_mv_cal_6000_witness:
  "no_calibration (boot_normal blank_matrix example_matrix) 0
   \<and> note_to_mv_cal (boot_normal blank_matrix example_matrix) 0 6000 = Inr 4000
   \<and> \<not> no_calibration (boot_normal blank_matrix example_matrix) 1
   \<and> note_to_mv_cal (boot_normal blank_matrix example_matrix) 1 6000 = Inr 2500"
proof -
  have a: "note_to_mv_cal (boot_normal blank_matrix example_matrix) 0 6000 = Inr 4000"
    using note_to_mv_cal_6000 [of "boot_normal blank_matrix example_matrix" 0]
      boot_normal_example by blast
  have "matrix_of (boot_normal blank_matrix example_matrix) 1 = example_matrix"
    using boot_normal_example by blast
  then have b: "note_to_mv_cal (boot_normal blank_matrix example_matrix) 1 6000 = Inr 2500"
    using note_to_mv_cal_6000 [of "boot_normal blank_matrix example_matrix" 1]
      boot_normal_example example_matrix_entries
    by metis
  show ?thesis using a b boot_normal_example by blast
qed

text \<open>The stated result of C1, 3750 mV for the stored example table, is not what the
  code returns.\<close>

theorem note_to_mv_cal_6000_not_3750:
  "note_to_mv_cal (boot_normal blank_matrix example_matrix) 1 6000 \<noteq> Inr 3750"
  by (simp add: note_to_mv_cal_def boot_normal_def init_check_def calibration_static_def
      read_matrices_def example_matrix_def blank_matrix_def no_calibration_def matrix_of_def
      Let_def bracket_def truncf_def note_index_def mat_read_def and_then_def map_f_def
      MATRIX_LEN_def)

section \<open>Cents deviation\<close>

lemma roundf_bounds:
  assumes "- 32768 < x" and "x < 32767"
  shows "- 32768 \<le> roundf x \<and> roundf x \<le> 32767"
  using assms unfolding roundf_def
  by (auto simp: le_floor_iff floor_le_iff ceiling_le_iff le_ceiling_iff)

text \<open>\<open>roundf\<close> returns a nearest integer.\<close>

lemma roundf_nearest: "\<bar>real_of_int (roundf x) - x\<bar> \<le> 1 / 2"
proof (cases "0 \<le> x")
  case True
  have "real_of_int \<lfloor>x + 1 / 2\<rfloor> \<le> x + 1 / 2"
    and "x + 1 / 2 < real_of_int \<lfloor>x + 1 / 2\<rfloor> + 1"
    by linarith+
  then have "\<bar>real_of_int \<lfloor>x + 1 / 2\<rfloor> - x\<bar> \<le> 1 / 2" by linarith
  then show ?thesis using True unfolding roundf_def by simp
next
  case False
  have "x - 1 / 2 \<le> real_of_int \<lceil>x - 1 / 2\<rceil>"
    and "real_of_int \<lceil>x - 1 / 2\<rceil> < x - 1 / 2 + 1"
    by linarith+
  then have "\<bar>real_of_int \<lceil>x - 1 / 2\<rceil> - x\<bar> \<le> 1 / 2" by linarith
  then show ?thesis using False unfolding roundf_def by simp
qed

lemma roundf_between:
  assumes "real_of_int k - 1 / 2 < x" and "x < real_of_int k + 1 / 2"
  shows "roundf x = k"
  using assms unfolding roundf_def by (auto; linarith)

lemma sint_word_of_int_16:
  assumes "- 32768 \<le> k" and "k \<le> 32767"
  shows "sint (word_of_int k :: 16 word) = k"
  using assms by (simp add: int_word_sint)

lemma hz_to_cents_deviation_fl_shape:
  assumes "0 < target" and "0 < measured"
  shows "hz_to_cents_deviation_fl err target measured
      = (if 32767 \<le> 1200 * log 2 (measured / target) + err then INT16_MAX
         else if 1200 * log 2 (measured / target) + err \<le> - 32768 then INT16_MIN
         else word_of_int (roundf (1200 * log 2 (measured / target) + err)))"
  using assms
  by (simp add: hz_to_cents_deviation_fl_def Let_def log_def INT16_MAX_def INT16_MIN_def)

lemma hz_to_cents_deviation_fl_sint:
  assumes "0 < target" and "0 < measured"
    and "- 32768 < 1200 * log 2 (measured / target) + err"
    and "1200 * log 2 (measured / target) + err < 32767"
  shows "sint (hz_to_cents_deviation_fl err target measured)
         = roundf (1200 * log 2 (measured / target) + err)"
proof -
  have "- 32768 \<le> roundf (1200 * log 2 (measured / target) + err)
      \<and> roundf (1200 * log 2 (measured / target) + err) \<le> 32767"
    using assms(3,4) by (rule roundf_bounds)
  then have "sint (word_of_int (roundf (1200 * log 2 (measured / target) + err)) :: 16 word)
      = roundf (1200 * log 2 (measured / target) + err)"
    by (simp add: sint_word_of_int_16)
  then show ?thesis
    using assms by (simp add: hz_to_cents_deviation_fl_shape)
qed

lemma hz_to_cents_deviation_fl_nearest:
  assumes "0 < target" and "0 < measured"
    and "- 32768 < 1200 * log 2 (measured / target) + err"
    and "1200 * log 2 (measured / target) + err < 32767"
  shows "\<bar>real_of_int (sint (hz_to_cents_deviation_fl err target measured))
          - 1200 * log 2 (measured / target)\<bar> \<le> 1 / 2 + \<bar>err\<bar>"
proof -
  have "\<bar>real_of_int (roundf (1200 * log 2 (measured / target) + err))
        - (1200 * log 2 (measured / target) + err)\<bar> \<le> 1 / 2"
    by (rule roundf_nearest)
  then show ?thesis
    unfolding hz_to_cents_deviation_fl_sint [OF assms] by linarith
qed

lemma hz_to_cents_deviation_fl_value:
  assumes "0 < target" and "0 < measured"
    and "real_of_int k - 1 / 2 < 1200 * log 2 (measured / target) + err"
    and "1200 * log 2 (measured / target) + err < real_of_int k + 1 / 2"
    and "- 32768 < k" and "k < 32767"
  shows "sint (hz_to_cents_deviation_fl err target measured) = k"
proof -
  have "- 32768 < 1200 * log 2 (measured / target) + err"
    using assms(3,5) by linarith
  moreover have "1200 * log 2 (measured / target) + err < 32767"
    using assms(4,6) by linarith
  ultimately have "sint (hz_to_cents_deviation_fl err target measured)
         = roundf (1200 * log 2 (measured / target) + err)"
    using assms(1,2) by (rule hz_to_cents_deviation_fl_sint [rotated 2])
  then show ?thesis using roundf_between [OF assms(3,4)] by simp
qed

text \<open>441 Hz is between 3.6 and 4.48 cents above 440 Hz.\<close>

lemma ln_2_bounds: "61 / 100 \<le> ln (2 :: real) \<and> ln (2 :: real) \<le> 3 / 4"
proof
  have "exp (61 / 100 :: real) \<le> 1 + 61 / 100 + (61 / 100)\<^sup>2"
    by (rule exp_bound) simp_all
  also have "\<dots> \<le> 2" by (simp add: power2_eq_square)
  finally have "exp (61 / 100 :: real) \<le> 2" .
  then have "ln (exp (61 / 100 :: real)) \<le> ln 2" by (simp del: ln_exp)
  then show "61 / 100 \<le> ln (2 :: real)" by simp
  have "(2 :: real) \<le> 1 + 3 / 4 + (3 / 4)\<^sup>2 / 2" by (simp add: power2_eq_square)
  also have "\<dots> \<le> exp (3 / 4)"
    by (rule exp_lower_Taylor_quadratic) simp
  finally have "ln (2 :: real) \<le> ln (exp (3 / 4))" by (simp del: ln_exp)
  then show "ln (2 :: real) \<le> 3 / 4" by simp
qed

lemma cents_441:
  "36 / 10 \<le> 1200 * log 2 (441 / 440 :: real) \<and> 1200 * log 2 (441 / 440 :: real) \<le> 448 / 100"
proof -
  have up: "ln (1 + 1 / 440 :: real) \<le> 1 / 440"
    by (rule ln_add_one_self_le_self) simp
  have "1 / 440 - (1 / 440)\<^sup>2 \<le> ln (1 + 1 / 440 :: real)"
    by (rule ln_one_plus_pos_lower_bound) simp_all
  then have lo: "439 / 193600 \<le> ln (1 + 1 / 440 :: real)" by (simp add: power2_eq_square)
  have e: "ln (441 / 440 :: real) = ln (1 + 1 / 440)" by simp
  have l2: "61 / 100 \<le> ln (2 :: real)" and u2: "ln (2 :: real) \<le> 3 / 4"
    using ln_2_bounds by blast+
  have pos: "0 < ln (2 :: real)" by simp
  have "ln (441 / 440 :: real) / ln 2 \<le> (1 / 440) / (61 / 100)"
    unfolding e using up l2 by (intro frac_le) simp_all
  then have a: "1200 * log 2 (441 / 440 :: real) \<le> 448 / 100"
    by (simp add: log_def)
  have "(439 / 193600) / (3 / 4) \<le> ln (441 / 440 :: real) / ln 2"
    unfolding e using lo u2 pos by (intro frac_le) simp_all
  then have b: "36 / 10 \<le> 1200 * log 2 (441 / 440 :: real)"
    by (simp add: log_def)
  show ?thesis using a b by blast
qed

lemma hz_to_cents_deviation_441:
  assumes "\<bar>err\<bar> \<le> 1 / 100"
  shows "sint (hz_to_cents_deviation_fl err 440 441) = 4"
proof (rule hz_to_cents_deviation_fl_value)
  show "real_of_int 4 - 1 / 2 < 1200 * log 2 (441 / 440) + err"
    using cents_441 assms by simp linarith
  show "1200 * log 2 (441 / 440) + err < real_of_int 4 + 1 / 2"
    using cents_441 assms by simp linarith
qed simp_all

lemma hz_to_cents_deviation_unison:
  assumes "\<bar>err\<bar> < 1 / 2"
  shows "hz_to_cents_deviation_fl err 440 440 = 0"
proof -
  have "sint (hz_to_cents_deviation_fl err 440 440) = 0"
    by (rule hz_to_cents_deviation_fl_value) (use assms in simp_all)
  then have "word_of_int (sint (hz_to_cents_deviation_fl err 440 440)) = (word_of_int 0 :: i16)"
    by simp
  then show ?thesis by simp
qed

lemma hz_to_cents_deviation_octave_up:
  assumes "\<bar>err\<bar> < 1 / 2"
  shows "sint (hz_to_cents_deviation_fl err 440 880) = 1200"
  by (rule hz_to_cents_deviation_fl_value) (use assms in simp_all)

lemma hz_to_cents_deviation_octave_down:
  assumes "\<bar>err\<bar> < 1 / 2"
  shows "sint (hz_to_cents_deviation_fl err 440 220) = - 1200"
proof -
  have "log 2 (220 / 440 :: real) = - 1"
    using log_inverse [of 2 "2 :: real"] by (simp add: inverse_eq_divide)
  then show ?thesis
    by (intro hz_to_cents_deviation_fl_value) (use assms in simp_all)
qed

text \<open>
  C9. \<open>hz_to_cents_deviation\<close> returns INT16\_MAX (32767) when the target is not positive
  and INT16\_MIN (-32768) when the target is positive and the measured frequency is not.
  Otherwise, with \<open>c = 1200 * log2 (measured / target)\<close> and \<open>err\<close> the rounding error of
  the binary32 evaluation of \<open>c\<close>: it returns INT16\_MAX when \<open>c + err\<close> is 32767 or more,
  INT16\_MIN when \<open>c + err\<close> is -32768 or less, and between the two an integer within
  \<open>1/2 + |err|\<close> of \<open>c\<close>; in exact arithmetic (\<open>err = 0\<close>) an integer within 1/2 of \<open>c\<close>,
  that is \<open>c\<close> rounded to a nearest integer. For every rounding error below 1/2 the
  deviation of 440 Hz from 440 Hz is 0, of 880 Hz is +1200 and of 220 Hz is -1200; the
  deviation of 441 Hz, 3.93 cents above 440 Hz, is 4.
\<close>

theorem hz_to_cents_deviation_saturating:
  "(target \<le> 0 \<longrightarrow> hz_to_cents_deviation_fl err target measured = INT16_MAX)
   \<and> (0 < target \<and> measured \<le> 0 \<longrightarrow>
        hz_to_cents_deviation_fl err target measured = INT16_MIN)
   \<and> (0 < target \<and> 0 < measured \<and> 32767 \<le> 1200 * log 2 (measured / target) + err \<longrightarrow>
        hz_to_cents_deviation_fl err target measured = INT16_MAX)
   \<and> (0 < target \<and> 0 < measured \<and> 1200 * log 2 (measured / target) + err \<le> - 32768 \<longrightarrow>
        hz_to_cents_deviation_fl err target measured = INT16_MIN)
   \<and> (0 < target \<and> 0 < measured \<and> - 32768 < 1200 * log 2 (measured / target) + err
        \<and> 1200 * log 2 (measured / target) + err < 32767 \<longrightarrow>
        \<bar>real_of_int (sint (hz_to_cents_deviation_fl err target measured))
          - 1200 * log 2 (measured / target)\<bar> \<le> 1 / 2 + \<bar>err\<bar>)
   \<and> hz_to_cents_deviation target measured = hz_to_cents_deviation_fl 0 target measured
   \<and> (0 < target \<and> 0 < measured \<and> - 32768 < 1200 * log 2 (measured / target)
        \<and> 1200 * log 2 (measured / target) < 32767 \<longrightarrow>
        \<bar>real_of_int (sint (hz_to_cents_deviation target measured))
          - 1200 * log 2 (measured / target)\<bar> \<le> 1 / 2)
   \<and> sint INT16_MAX = 32767 \<and> sint INT16_MIN = - 32768
   \<and> (\<bar>err\<bar> < 1 / 2 \<longrightarrow>
        hz_to_cents_deviation_fl err 440 440 = 0
        \<and> sint (hz_to_cents_deviation_fl err 440 880) = 1200
        \<and> sint (hz_to_cents_deviation_fl err 440 220) = - 1200)
   \<and> (\<bar>err\<bar> \<le> 1 / 100 \<longrightarrow> sint (hz_to_cents_deviation_fl err 440 441) = 4)"
proof (intro conjI impI)
  show "hz_to_cents_deviation_fl err target measured = INT16_MAX" if "target \<le> 0"
    using that by (simp add: hz_to_cents_deviation_fl_def)
  show "hz_to_cents_deviation_fl err target measured = INT16_MIN"
    if "0 < target \<and> measured \<le> 0"
    using that by (simp add: hz_to_cents_deviation_fl_def)
  show "hz_to_cents_deviation_fl err target measured = INT16_MAX"
    if "0 < target \<and> 0 < measured \<and> 32767 \<le> 1200 * log 2 (measured / target) + err"
    using that by (simp add: hz_to_cents_deviation_fl_shape)
  show "hz_to_cents_deviation_fl err target measured = INT16_MIN"
    if "0 < target \<and> 0 < measured \<and> 1200 * log 2 (measured / target) + err \<le> - 32768"
    using that by (simp add: hz_to_cents_deviation_fl_shape)
  show "\<bar>real_of_int (sint (hz_to_cents_deviation_fl err target measured))
          - 1200 * log 2 (measured / target)\<bar> \<le> 1 / 2 + \<bar>err\<bar>"
    if "0 < target \<and> 0 < measured \<and> - 32768 < 1200 * log 2 (measured / target) + err
        \<and> 1200 * log 2 (measured / target) + err < 32767"
    using that hz_to_cents_deviation_fl_nearest by blast
  show "hz_to_cents_deviation target measured = hz_to_cents_deviation_fl 0 target measured"
    by (simp add: hz_to_cents_deviation_def)
  show "\<bar>real_of_int (sint (hz_to_cents_deviation target measured))
          - 1200 * log 2 (measured / target)\<bar> \<le> 1 / 2"
    if "0 < target \<and> 0 < measured \<and> - 32768 < 1200 * log 2 (measured / target)
        \<and> 1200 * log 2 (measured / target) < 32767"
    using that hz_to_cents_deviation_fl_nearest [of target measured 0]
    by (simp add: hz_to_cents_deviation_def)
  show "sint INT16_MAX = 32767" by (simp add: INT16_MAX_def)
  show "sint INT16_MIN = - 32768" by (simp add: INT16_MIN_def)
  show "hz_to_cents_deviation_fl err 440 440 = 0" if "\<bar>err\<bar> < 1 / 2"
    using that by (rule hz_to_cents_deviation_unison)
  show "sint (hz_to_cents_deviation_fl err 440 880) = 1200" if "\<bar>err\<bar> < 1 / 2"
    using that by (rule hz_to_cents_deviation_octave_up)
  show "sint (hz_to_cents_deviation_fl err 440 220) = - 1200" if "\<bar>err\<bar> < 1 / 2"
    using that by (rule hz_to_cents_deviation_octave_down)
  show "sint (hz_to_cents_deviation_fl err 440 441) = 4" if "\<bar>err\<bar> \<le> 1 / 100"
    using that by (rule hz_to_cents_deviation_441)
qed

theorem hz_to_cents_deviation_saturating_witness:
  "hz_to_cents_deviation 0 440 = INT16_MAX
   \<and> hz_to_cents_deviation 440 0 = INT16_MIN
   \<and> hz_to_cents_deviation 1 (2 ^ 28) = INT16_MAX
   \<and> hz_to_cents_deviation (2 ^ 28) 1 = INT16_MIN
   \<and> \<bar>real_of_int (sint (hz_to_cents_deviation 440 441)) - 1200 * log 2 (441 / 440)\<bar> \<le> 1 / 2
   \<and> sint (hz_to_cents_deviation 440 441) = 4
   \<and> hz_to_cents_deviation 440 440 = 0
   \<and> sint (hz_to_cents_deviation 440 880) = 1200
   \<and> sint (hz_to_cents_deviation 440 220) = - 1200"
proof -
  have e: "(0 :: real) \<le> 0 \<and> \<bar>0 :: real\<bar> < 1 / 2 \<and> \<bar>0 :: real\<bar> \<le> 1 / 100
      \<and> (0 :: real) < 440 \<and> (0 :: real) < 441 \<and> (0 :: real) < 1 \<and> (0 :: real) < 2 ^ 28"
    by simp
  have l28: "log 2 (2 ^ 28 :: real) = real 28"
    by (rule log_pow_cancel) simp_all
  have hi: "32767 \<le> 1200 * log 2 (2 ^ 28 / 1 :: real) + 0"
    unfolding div_by_1 l28 by simp
  have "log 2 (inverse (2 ^ 28) :: real) = - log 2 (2 ^ 28)"
    by (rule log_inverse)
  then have lo: "1200 * log 2 (1 / 2 ^ 28 :: real) + 0 \<le> - 32768"
    unfolding inverse_eq_divide l28 by simp
  have mid: "- 32768 < 1200 * log 2 (441 / 440 :: real)
      \<and> 1200 * log 2 (441 / 440 :: real) < 32767"
    using cents_441 by linarith
  have a: "hz_to_cents_deviation 0 440 = INT16_MAX"
    using hz_to_cents_deviation_saturating [of 0 0 440] e
    unfolding hz_to_cents_deviation_def by blast
  have b: "hz_to_cents_deviation 440 0 = INT16_MIN"
    using hz_to_cents_deviation_saturating [of 440 0 0] e
    unfolding hz_to_cents_deviation_def by blast
  have c: "hz_to_cents_deviation 1 (2 ^ 28) = INT16_MAX"
    using hz_to_cents_deviation_saturating [of 1 0 "2 ^ 28"] e hi
    unfolding hz_to_cents_deviation_def by blast
  have d: "hz_to_cents_deviation (2 ^ 28) 1 = INT16_MIN"
    using hz_to_cents_deviation_saturating [of "2 ^ 28" 0 1] e lo
    unfolding hz_to_cents_deviation_def by blast
  have f: "\<bar>real_of_int (sint (hz_to_cents_deviation 440 441)) - 1200 * log 2 (441 / 440)\<bar>
      \<le> 1 / 2"
    using hz_to_cents_deviation_saturating [of 440 0 441] e mid
    unfolding hz_to_cents_deviation_def by blast
  have g: "sint (hz_to_cents_deviation 440 441) = 4
      \<and> hz_to_cents_deviation 440 440 = 0
      \<and> sint (hz_to_cents_deviation 440 880) = 1200
      \<and> sint (hz_to_cents_deviation 440 220) = - 1200"
    using hz_to_cents_deviation_saturating [of 440 0 441] e
    unfolding hz_to_cents_deviation_def by blast
  show ?thesis using a b c d f g by blast
qed

section \<open>Reset of a stored table\<close>

lemma btn_long_press_reset_vco_1:
  assumes "stage s = PREP_RESET_VCO_1"
  shows "calib_matrix_1 (btn_long_press s dip) = calib_matrix_1 s
       \<and> calib_matrix_2 (btn_long_press s dip)
         = (calib_matrix_2 s)\<lparr>note_min := 255, note_max := 255\<rparr>
       \<and> eeprom_matrix_1 (btn_long_press s dip) = calib_matrix_1 s
       \<and> eeprom_matrix_2 (btn_long_press s dip)
         = (calib_matrix_2 s)\<lparr>note_min := 255, note_max := 255\<rparr>
       \<and> stage (btn_long_press s dip) = PREP_RESET_VCO_2"
  using assms by (simp add: btn_long_press_def clear_bounds_def write_matrices_def Let_def)

lemma btn_long_press_reset_vco_2:
  assumes "stage s = PREP_RESET_VCO_2"
  shows "calib_matrix_1 (btn_long_press s dip) = calib_matrix_1 s
       \<and> calib_matrix_2 (btn_long_press s dip)
         = (calib_matrix_2 s)\<lparr>note_min := 255, note_max := 255\<rparr>
       \<and> eeprom_matrix_1 (btn_long_press s dip) = calib_matrix_1 s
       \<and> eeprom_matrix_2 (btn_long_press s dip)
         = (calib_matrix_2 s)\<lparr>note_min := 255, note_max := 255\<rparr>
       \<and> stage (btn_long_press s dip) = PREP_GAIN_1"
  using assms by (simp add: btn_long_press_def clear_bounds_def write_matrices_def Let_def)

lemma reset_vco_1_selected_state:
  "stage reset_vco_1_selected = PREP_RESET_VCO_1
   \<and> calib_matrix_1 reset_vco_1_selected = example_matrix
   \<and> calib_matrix_2 reset_vco_1_selected = example_matrix"
  by (simp add: reset_vco_1_selected_def eval_nat_numeral btn_short_press_def dac_set_def
      init_check_def calibration_static_def read_matrices_def Let_def)

text \<open>
  C2 asks that a long press in PREP\_RESET\_VCO\_1 sets the bounds of channel 1 to 255 and
  leaves channel 2 alone. The code does the opposite there: with the stage
  PREP\_RESET\_VCO\_1 selected and the example table stored for both channels, the long
  press leaves the bounds 48 and 72 of channel 1 in memory and in the EEPROM, sets the
  bounds of channel 2 to 255 and goes on to PREP\_RESET\_VCO\_2.
\<close>

theorem btn_long_press_reset_vco_1_clears_channel_2:
  "stage reset_vco_1_selected = PREP_RESET_VCO_1
   \<and> note_min (calib_matrix_1 (btn_long_press reset_vco_1_selected 0)) = 48
   \<and> note_max (calib_matrix_1 (btn_long_press reset_vco_1_selected 0)) = 72
   \<and> note_min (eeprom_matrix_1 (btn_long_press reset_vco_1_selected 0)) = 48
   \<and> note_max (eeprom_matrix_1 (btn_long_press reset_vco_1_selected 0)) = 72
   \<and> note_min (calib_matrix_2 (btn_long_press reset_vco_1_selected 0)) = 255
   \<and> note_max (calib_matrix_2 (btn_long_press reset_vco_1_selected 0)) = 255
   \<and> stage (btn_long_press reset_vco_1_selected 0) = PREP_RESET_VCO_2"
  using btn_long_press_reset_vco_1 [of reset_vco_1_selected 0] reset_vco_1_selected_state
  by (simp add: example_matrix_def)

section \<open>Interpolation in a stored table\<close>

declare of_nat_unat [simp del]

lemma u8_unat_simps:
  fixes a :: u8
  shows "unat (a + 1) = (if unat a = 255 then 0 else unat a + 1)"
    and "unat (a - 1) = (if unat a = 0 then 255 else unat a - 1)"
  by (unat_arith; simp)+

lemma note_index_unat:
  assumes "12 \<le> unat n"
  shows "note_index n = unat n - 12"
proof -
  have "unat n < 256" using unsigned_less [of n, where 'a=nat] by simp
  then have "unat (ucast n :: u16) = unat n"
    by (simp add: unsigned_ucast_eq take_bit_nat_eq_self)
  then show ?thesis using assms unfolding note_index_def
    by (simp add: unat_sub word_le_nat_alt)
qed

lemma truncf_cents: "truncf (real n / 100) = int (n div 100)"
  unfolding truncf_def using floor_divide_of_nat_eq [of n 100, where 'a=real] by simp

lemma unat_u8_of_nat: "k < 256 \<Longrightarrow> unat (of_nat k :: u8) = k"
  by (simp add: unat_of_nat)

lemma bracket_nat:
  assumes "unat (note_min m) < unat (note_max m)" and "unat (note_max m) \<le> 127"
    and "unat cents \<le> 12700"
  shows "unat (fst (bracket m (real (unat cents) / 100))) = bracket_lo m cents
       \<and> unat (snd (bracket m (real (unat cents) / 100))) = bracket_lo m cents + 1"
proof -
  define k where "k = unat cents div 100"
  have k: "k \<le> 127" using assms(3) by (simp add: k_def)
  have K: "unat (of_nat k :: u8) = k" using k by (simp add: unat_of_nat)
  have t: "(word_of_int (truncf (real (unat cents) / 100)) :: u8) = of_nat k"
    by (simp add: truncf_cents k_def)
  show ?thesis
    using assms k K unfolding bracket_def t bracket_lo_def k_def [symmetric]
    by (auto simp: word_le_nat_alt u8_unat_simps not_le)
qed


lemma map_f_unit: "map_f x (real lo) (real (lo + 1)) a b = a + (x - real lo) * (b - a)"
  by (simp add: map_f_def)

lemma valid_bounds:
  assumes "\<not> no_calibration s channel"
  shows "unat (note_min (matrix_of s channel)) < unat (note_max (matrix_of s channel))"
    and "unat (note_max (matrix_of s channel)) \<le> 127"
    and "stage s \<noteq> PREP_VCO_1 \<and> stage s \<noteq> PREP_VCO_2 \<and> stage s \<noteq> VCO_1 \<and> stage s \<noteq> VCO_2"
  using assms unfolding no_calibration_def Let_def
  by (auto simp: word_le_nat_alt word_less_nat_alt not_le not_less)

lemma bracket_lo_bounds:
  assumes "unat (note_min m) < unat (note_max m)" and "12 \<le> unat (note_min m)"
  shows "unat (note_min m) \<le> bracket_lo m cents" and "bracket_lo m cents + 1 \<le> unat (note_max m)"
    and "12 \<le> bracket_lo m cents"
  using assms unfolding bracket_lo_def by auto

lemma note_to_mv_cal_interp:
  assumes nc: "\<not> no_calibration s channel"
    and m12: "12 \<le> note_min (matrix_of s channel)"
    and len: "length (matrix (matrix_of s channel)) = MATRIX_LEN"
    and r: "1200 \<le> cents" "cents \<le> 12700"
  shows "note_to_mv_cal s channel cents
         = Inr (map_f (real (unat cents) / 100)
                  (real (bracket_lo (matrix_of s channel) cents))
                  (real (bracket_lo (matrix_of s channel) cents + 1))
                  (real (unat (matrix (matrix_of s channel) ! (bracket_lo (matrix_of s channel) cents - 12))))
                  (real (unat (matrix (matrix_of s channel) ! (bracket_lo (matrix_of s channel) cents + 1 - 12)))))"
proof -
  define m where "m = matrix_of s channel"
  define lo where "lo = bracket_lo m cents"
  have b1: "unat (note_min m) < unat (note_max m)" and b2: "unat (note_max m) \<le> 127"
    using valid_bounds [OF nc] by (simp_all add: m_def)
  have b3: "12 \<le> unat (note_min m)" using m12 by (simp add: m_def word_le_nat_alt)
  have c: "unat cents \<le> 12700" using r(2) by (simp add: word_le_nat_alt)
  obtain lw hw where br: "bracket m (real (unat cents) / 100) = (lw, hw)" by fastforce
  have lw: "unat lw = lo" and hw: "unat hw = lo + 1"
    using bracket_nat [OF b1 b2 c] br by (simp_all add: lo_def)
  have lo12: "12 \<le> lo" and lohi: "lo + 1 \<le> unat (note_max m)"
    using bracket_lo_bounds [OF b1 b3, of cents] by (simp_all add: lo_def)
  have il: "note_index lw = lo - 12" using lw lo12 by (simp add: note_index_unat)
  have ih: "note_index hw = lo + 1 - 12" using hw lo12 by (simp add: note_index_unat)
  have inb: "lo - 12 < length (matrix m)" "lo + 1 - 12 < length (matrix m)"
    using lohi b2 len by (simp_all add: m_def MATRIX_LEN_def)
  have "\<not> (cents < 1200 \<or> cents > 12700)" using r by (simp add: not_less)
  then show ?thesis
    using nc br il ih inb lw hw
    unfolding note_to_mv_cal_def m_def [symmetric] lo_def [symmetric]
    by (simp add: Let_def mat_read_def and_then_def)
qed

lemma table_nondecreasing_nth:
  assumes "table_nondecreasing m" and "12 \<le> unat (note_min m)"
    and "unat (note_max m) - 12 < length (matrix m)"
    and "unat (note_min m) \<le> i" and "i \<le> j" and "j \<le> unat (note_max m)"
  shows "matrix m ! (i - 12) \<le> matrix m ! (j - 12)"
proof -
  define d where "d = unat (note_min m) - 12"
  define n where "n = unat (note_max m) - unat (note_min m) + 1"
  define xs where "xs = take n (drop d (matrix m))"
  have s: "sorted xs" using assms(1) by (simp add: table_nondecreasing_def xs_def n_def d_def)
  have l: "length xs = n" using assms(2,3,4,5,6) by (simp add: xs_def n_def d_def)
  have ij: "i - unat (note_min m) \<le> j - unat (note_min m)" "j - unat (note_min m) < n"
    using assms by (simp_all add: n_def)
  have "xs ! (i - unat (note_min m)) \<le> xs ! (j - unat (note_min m))"
    using sorted_nth_mono [OF s ij(1)] ij(2) l by simp
  moreover have "xs ! (i - unat (note_min m)) = matrix m ! (i - 12)"
    using assms ij l by (simp add: xs_def d_def n_def)
  moreover have "xs ! (j - unat (note_min m)) = matrix m ! (j - 12)"
    using assms ij l by (simp add: xs_def d_def n_def)
  ultimately show ?thesis by simp
qed


lemma bracket_lo_encloses:
  assumes "unat (note_min m) < unat (note_max m)"
    and "unat (note_min m) * 100 \<le> unat cents" and "unat cents \<le> unat (note_max m) * 100"
  shows "real (bracket_lo m cents) \<le> real (unat cents) / 100"
    and "real (unat cents) / 100 \<le> real (bracket_lo m cents) + 1"
proof -
  define n where "n = unat cents"
  define k where "k = n div 100"
  have k1: "unat (note_min m) \<le> k" using assms(2) by (simp add: k_def n_def)
  have k2: "k \<le> unat (note_max m)" using assms(3) by (simp add: k_def n_def)
  have kn: "real k \<le> real n / 100" "real n / 100 < real k + 1"
    using floor_divide_of_nat_eq [of n 100, where 'a=real]
    by (simp_all add: k_def le_divide_eq)
  show "real (bracket_lo m cents) \<le> real (unat cents) / 100"
    using k1 k2 kn assms(1) unfolding bracket_lo_def n_def [symmetric] k_def [symmetric]
    by (simp add: min_def max_def) linarith
  show "real (unat cents) / 100 \<le> real (bracket_lo m cents) + 1"
  proof (cases "k = unat (note_max m)")
    case True
    then have "n = unat (note_max m) * 100" using assms(3) k_def n_def by simp 
    then show ?thesis
      using True assms(1) unfolding bracket_lo_def n_def [symmetric] k_def [symmetric]
      by (simp add: min_def max_def)
  next
    case False
    then have "k \<le> unat (note_max m) - 1" using k2 by simp
    then have "bracket_lo m cents = k"
      using k1 unfolding bracket_lo_def n_def [symmetric] k_def [symmetric]
      by (simp add: min_def max_def)
    then show ?thesis using kn by (simp add: n_def)
  qed
qed

lemma map_f_unit_between:
  assumes "real lo \<le> x" and "x \<le> real lo + 1"
  shows "min a b \<le> map_f x (real lo) (real (lo + 1)) a b"
    and "map_f x (real lo) (real (lo + 1)) a b \<le> max a b"
proof -
  define t where "t = x - real lo"
  have t: "0 \<le> t" "t \<le> 1" using assms by (simp_all add: t_def)
  have e: "map_f x (real lo) (real (lo + 1)) a b = a + t * (b - a)"
    by (simp only: map_f_unit t_def)
  show "min a b \<le> map_f x (real lo) (real (lo + 1)) a b"
  proof (cases "a \<le> b")
    case True
    then have "0 \<le> t * (b - a)" using t by simp
    then show ?thesis using True e by simp
  next
    case False
    then have "t * (a - b) \<le> 1 * (a - b)" using t by (intro mult_right_mono) simp_all
    then show ?thesis using False e by (simp add: algebra_simps)
  qed
  show "map_f x (real lo) (real (lo + 1)) a b \<le> max a b"
  proof (cases "a \<le> b")
    case True
    then have "t * (b - a) \<le> 1 * (b - a)" using t by (intro mult_right_mono) simp_all
    then show ?thesis using True e by (simp add: algebra_simps)
  next
    case False
    then have "t * (b - a) \<le> 0" using t by (simp add: mult_nonneg_nonpos)
    then show ?thesis using False e by simp
  qed
qed

lemma bracket_lo_mono:
  assumes "unat c1 \<le> unat c2"
  shows "bracket_lo m c1 \<le> bracket_lo m c2"
proof -
  have "unat c1 div 100 \<le> unat c2 div 100" using assms by (rule div_le_mono)
  then show ?thesis unfolding bracket_lo_def by (simp add: min_def max_def)
qed

lemma in_range_cents:
  fixes c :: u16
  assumes "12 \<le> unat (note_min m)" and "unat (note_max m) \<le> 127"
    and "unat (note_min m) * 100 \<le> unat c" and "unat c \<le> unat (note_max m) * 100"
  shows "1200 \<le> c" and "c \<le> 12700"
  using assms by (simp_all add: word_le_nat_alt)

text \<open>
  C3, as the code has it. For a channel with a valid stored calibration whose lower bound
  is at least note 12, and a query from 1200 to 12700 cents, \<open>note_to_mv_cal\<close> moves the
  whole-note bracket, not the query, into the stored range: the lower note \<open>lo\<close> is the
  whole note of the query, raised to \<open>note_min\<close> and lowered to \<open>note_max - 1\<close>, and the
  result is the value at cents / 100 of the line through the entries of \<open>lo\<close> and \<open>lo + 1\<close>.
  For a query from \<open>note_min * 100\<close> to \<open>note_max * 100\<close> cents the result lies between
  these two adjacent entries, and between the entries of \<open>note_min\<close> and \<open>note_max\<close> when
  the stored entries do not decrease. A query outside is not clamped: the result
  continues the first or the last segment.
\<close>

theorem note_to_mv_cal_bracket:
  assumes nc: "\<not> no_calibration s channel"
    and m12: "12 \<le> note_min (matrix_of s channel)"
    and len: "length (matrix (matrix_of s channel)) = MATRIX_LEN"
    and r: "1200 \<le> cents" "cents \<le> 12700"
  shows "let m = matrix_of s channel;
             lo = bracket_lo m cents;
             a = real (unat (matrix m ! (lo - 12)));
             b = real (unat (matrix m ! (lo + 1 - 12)));
             v = map_f (real (unat cents) / 100) (real lo) (real (lo + 1)) a b
         in note_to_mv_cal s channel cents = Inr v
            \<and> lo = min (max (unat cents div 100) (unat (note_min m))) (unat (note_max m) - 1)
            \<and> v = a + (real (unat cents) / 100 - real lo) * (b - a)
            \<and> (unat (note_min m) * 100 \<le> unat cents \<and> unat cents \<le> unat (note_max m) * 100
                \<longrightarrow> min a b \<le> v \<and> v \<le> max a b
                    \<and> (table_nondecreasing m \<longrightarrow>
                          real (unat (matrix m ! (unat (note_min m) - 12))) \<le> v
                          \<and> v \<le> real (unat (matrix m ! (unat (note_max m) - 12)))))"
proof -
  define m where "m = matrix_of s channel"
  define lo where "lo = bracket_lo m cents"
  define a where "a = real (unat (matrix m ! (lo - 12)))"
  define b where "b = real (unat (matrix m ! (lo + 1 - 12)))"
  define v where "v = map_f (real (unat cents) / 100) (real lo) (real (lo + 1)) a b"
  have b1: "unat (note_min m) < unat (note_max m)" and b2: "unat (note_max m) \<le> 127"
    using valid_bounds [OF nc] by (simp_all add: m_def)
  have b3: "12 \<le> unat (note_min m)" using m12 by (simp add: m_def word_le_nat_alt)
  have res: "note_to_mv_cal s channel cents = Inr v"
    using note_to_mv_cal_interp [OF nc m12 len r]
    by (simp add: v_def a_def b_def lo_def m_def)
  have lod: "lo = min (max (unat cents div 100) (unat (note_min m))) (unat (note_max m) - 1)"
    by (simp add: lo_def bracket_lo_def)
  have vf: "v = a + (real (unat cents) / 100 - real lo) * (b - a)"
    by (simp only: v_def map_f_unit)
  have los: "unat (note_min m) \<le> lo" "lo + 1 \<le> unat (note_max m)"
    using bracket_lo_bounds [OF b1 b3, of cents] by (simp_all add: lo_def)
  have inr: "min a b \<le> v \<and> v \<le> max a b
        \<and> (table_nondecreasing m \<longrightarrow>
              real (unat (matrix m ! (unat (note_min m) - 12))) \<le> v
              \<and> v \<le> real (unat (matrix m ! (unat (note_max m) - 12))))"
    if h: "unat (note_min m) * 100 \<le> unat cents \<and> unat cents \<le> unat (note_max m) * 100"
  proof -
    have e: "real lo \<le> real (unat cents) / 100" "real (unat cents) / 100 \<le> real lo + 1"
      using bracket_lo_encloses [OF b1, of cents] h by (simp_all add: lo_def)
    have bt: "min a b \<le> v" "v \<le> max a b"
      using map_f_unit_between [OF e, of a b] by (simp_all add: v_def)
    have "real (unat (matrix m ! (unat (note_min m) - 12))) \<le> v
          \<and> v \<le> real (unat (matrix m ! (unat (note_max m) - 12)))"
      if t: "table_nondecreasing m"
    proof -
      have lb: "unat (note_max m) - 12 < length (matrix m)"
        using b2 b3 b1 len by (simp add: m_def MATRIX_LEN_def)
      have w1: "matrix m ! (unat (note_min m) - 12) \<le> matrix m ! (lo - 12)"
        using table_nondecreasing_nth [OF t b3 lb, of "unat (note_min m)" lo] los by simp
      have w2: "matrix m ! (lo - 12) \<le> matrix m ! (lo + 1 - 12)"
        using table_nondecreasing_nth [OF t b3 lb, of lo "lo + 1"] los by simp
      have w3: "matrix m ! (lo + 1 - 12) \<le> matrix m ! (unat (note_max m) - 12)"
        using table_nondecreasing_nth [OF t b3 lb, of "lo + 1" "unat (note_max m)"] los by simp
      have r1: "real (unat (matrix m ! (unat (note_min m) - 12))) \<le> a"
        using w1 by (simp add: a_def word_le_nat_alt)
      have r2: "a \<le> b" using w2 by (simp add: a_def b_def word_le_nat_alt)
      have r3: "b \<le> real (unat (matrix m ! (unat (note_max m) - 12)))"
        using w3 by (simp add: b_def word_le_nat_alt)
      show ?thesis using r1 r2 r3 bt by simp
    qed
    then show ?thesis using bt by simp
  qed
  show ?thesis
    unfolding Let_def m_def [symmetric] lo_def [symmetric] a_def [symmetric] b_def [symmetric]
      v_def [symmetric]
    using res lod vf inr by blast
qed

lemma ramp_state:
  "\<not> no_calibration (boot_normal blank_matrix ramp_matrix) 1
   \<and> matrix_of (boot_normal blank_matrix ramp_matrix) 1 = ramp_matrix"
  by (simp add: no_calibration_def boot_normal_def init_check_def calibration_static_def
        read_matrices_def blank_matrix_def ramp_matrix_def matrix_of_def Let_def)

text \<open>C3 as stated fails: with the rising table (entry of \<open>note_max\<close> = 50 is 3000 mV) the
  query 5200 cents returns 5000 mV, beyond the last stored value.\<close>

theorem note_to_mv_cal_extrapolates:
  "\<not> no_calibration (boot_normal blank_matrix ramp_matrix) 1
   \<and> note_to_mv_cal (boot_normal blank_matrix ramp_matrix) 1 5200 = Inr 5000
   \<and> real (unat (matrix ramp_matrix ! note_index (note_max ramp_matrix))) = 3000"
  by (simp add: note_to_mv_cal_def boot_normal_def init_check_def calibration_static_def
      read_matrices_def ramp_matrix_def blank_matrix_def no_calibration_def matrix_of_def
      Let_def bracket_def truncf_def note_index_def mat_read_def and_then_def map_f_def
      MATRIX_LEN_def)

theorem note_to_mv_cal_bracket_witness:
  "\<not> no_calibration (boot_normal blank_matrix ramp_matrix) 1
   \<and> note_to_mv_cal (boot_normal blank_matrix ramp_matrix) 1 4950 = Inr 2500
   \<and> bracket_lo ramp_matrix 4950 = 49
   \<and> table_nondecreasing ramp_matrix"
proof -
  have h1: "\<not> no_calibration (boot_normal blank_matrix ramp_matrix) 1"
    and mo: "matrix_of (boot_normal blank_matrix ramp_matrix) 1 = ramp_matrix"
    using ramp_state by simp_all
  have h2: "12 \<le> note_min (matrix_of (boot_normal blank_matrix ramp_matrix) 1)"
    unfolding mo by (simp add: ramp_matrix_def MATRIX_LEN_def)
  have h3: "length (matrix (matrix_of (boot_normal blank_matrix ramp_matrix) 1)) = MATRIX_LEN"
    unfolding mo by (simp add: ramp_matrix_def MATRIX_LEN_def)
  have h4: "(1200 :: u16) \<le> 4950" and h5: "(4950 :: u16) \<le> 12700" by simp_all
  have lo: "bracket_lo ramp_matrix 4950 = 49" by (simp add: bracket_lo_def ramp_matrix_def)
  have e: "matrix ramp_matrix ! 37 = 2000 \<and> matrix ramp_matrix ! 38 = 3000"
    by (simp add: ramp_matrix_def MATRIX_LEN_def)
  have t: "table_nondecreasing ramp_matrix"
    by code_simp
  from note_to_mv_cal_bracket [OF h1 h2 h3 h4 h5]
  have "note_to_mv_cal (boot_normal blank_matrix ramp_matrix) 1 4950 = Inr 2500"
    by (simp add: Let_def mo lo e map_f_def)
  then show ?thesis using h1 lo t by simp
qed


lemma interp_mono:
  assumes nc: "\<not> no_calibration s channel"
    and m12: "12 \<le> note_min (matrix_of s channel)"
    and len: "length (matrix (matrix_of s channel)) = MATRIX_LEN"
    and t: "table_nondecreasing (matrix_of s channel)"
    and lo1: "unat (note_min (matrix_of s channel)) * 100 \<le> unat c1"
    and le: "c1 \<le> c2"
    and hi2: "unat c2 \<le> unat (note_max (matrix_of s channel)) * 100"
  shows "\<exists>v1 v2. note_to_mv_cal s channel c1 = Inr v1
               \<and> note_to_mv_cal s channel c2 = Inr v2 \<and> v1 \<le> v2"
proof -
  define m where "m = matrix_of s channel"
  define T where "T = (\<lambda>i. real (unat (matrix m ! (i - 12))))"
  define f where "f = (\<lambda>c. map_f (real (unat c) / 100) (real (bracket_lo m c))
                           (real (bracket_lo m c + 1)) (T (bracket_lo m c)) (T (bracket_lo m c + 1)))"
  have b1: "unat (note_min m) < unat (note_max m)" and b2: "unat (note_max m) \<le> 127"
    using valid_bounds [OF nc] by (simp_all add: m_def)
  have b3: "12 \<le> unat (note_min m)" using m12 by (simp add: m_def word_le_nat_alt)
  have n12: "unat c1 \<le> unat c2" using le by (simp add: word_le_nat_alt)
  have in1: "unat (note_min m) * 100 \<le> unat c1" "unat c1 \<le> unat (note_max m) * 100"
    using lo1 hi2 n12 by (simp_all add: m_def)
  have in2: "unat (note_min m) * 100 \<le> unat c2" "unat c2 \<le> unat (note_max m) * 100"
    using lo1 hi2 n12 by (simp_all add: m_def)
  have r1: "note_to_mv_cal s channel c1 = Inr (f c1)"
    using note_to_mv_cal_interp [OF nc m12 len in_range_cents [OF b3 b2 in1]]
    by (simp add: f_def T_def m_def)
  have r2: "note_to_mv_cal s channel c2 = Inr (f c2)"
    using note_to_mv_cal_interp [OF nc m12 len in_range_cents [OF b3 b2 in2]]
    by (simp add: f_def T_def m_def)
  have lb: "unat (note_max m) - 12 < length (matrix m)"
    using b2 b3 b1 len by (simp add: m_def MATRIX_LEN_def)
  have Tm: "T i \<le> T j" if "unat (note_min m) \<le> i" "i \<le> j" "j \<le> unat (note_max m)" for i j
    using table_nondecreasing_nth [OF t [folded m_def] b3 lb that]
    by (simp add: T_def word_le_nat_alt)
  have bs: "unat (note_min m) \<le> bracket_lo m c" "bracket_lo m c + 1 \<le> unat (note_max m)" for c
    using bracket_lo_bounds [OF b1 b3, of c] by simp_all
  have seg: "T (bracket_lo m c) \<le> T (bracket_lo m c + 1)" for c
    using Tm [of "bracket_lo m c" "bracket_lo m c + 1"] bs [of c] by simp
  have e1: "real (bracket_lo m c1) \<le> real (unat c1) / 100"
    "real (unat c1) / 100 \<le> real (bracket_lo m c1) + 1"
    using bracket_lo_encloses [OF b1 in1] by simp_all
  have e2: "real (bracket_lo m c2) \<le> real (unat c2) / 100"
    "real (unat c2) / 100 \<le> real (bracket_lo m c2) + 1"
    using bracket_lo_encloses [OF b1 in2] by simp_all
  have "f c1 \<le> f c2"
  proof (cases "bracket_lo m c1 = bracket_lo m c2")
    case True
    have "real (unat c1) / 100 \<le> real (unat c2) / 100" using n12 by simp
    then have "(real (unat c1) / 100 - real (bracket_lo m c2))
                 * (T (bracket_lo m c2 + 1) - T (bracket_lo m c2))
               \<le> (real (unat c2) / 100 - real (bracket_lo m c2))
                 * (T (bracket_lo m c2 + 1) - T (bracket_lo m c2))"
      using seg [of c2] by (intro mult_right_mono) simp_all
    then show ?thesis unfolding f_def True map_f_unit by simp
  next
    case False
    then have lt: "bracket_lo m c1 + 1 \<le> bracket_lo m c2"
      using bracket_lo_mono [OF n12, of m] by simp
    have "f c1 \<le> max (T (bracket_lo m c1)) (T (bracket_lo m c1 + 1))"
      using map_f_unit_between(2) [OF e1] by (simp add: f_def)
    also have "\<dots> = T (bracket_lo m c1 + 1)" using seg [of c1] by simp
    also have "\<dots> \<le> T (bracket_lo m c2)"
      using Tm [of "bracket_lo m c1 + 1" "bracket_lo m c2"] lt bs [of c1] bs [of c2] by simp
    also have "\<dots> = min (T (bracket_lo m c2)) (T (bracket_lo m c2 + 1))"
      using seg [of c2] by simp
    also have "\<dots> \<le> f c2" using map_f_unit_between(1) [OF e2] by (simp add: f_def)
    finally show ?thesis .
  qed
  then show ?thesis using r1 r2 by blast
qed

lemma interp_whole_note:
  assumes nc: "\<not> no_calibration s channel"
    and m12: "12 \<le> note_min (matrix_of s channel)"
    and len: "length (matrix (matrix_of s channel)) = MATRIX_LEN"
    and n: "note_min (matrix_of s channel) \<le> n" "n \<le> note_max (matrix_of s channel)"
  shows "note_to_mv_cal s channel (ucast n * 100)
         = Inr (real (unat (matrix (matrix_of s channel) ! (unat n - 12))))"
proof -
  define m where "m = matrix_of s channel"
  define c where "c = (ucast n * 100 :: u16)"
  have b1: "unat (note_min m) < unat (note_max m)" and b2: "unat (note_max m) \<le> 127"
    using valid_bounds [OF nc] by (simp_all add: m_def)
  have b3: "12 \<le> unat (note_min m)" using m12 by (simp add: m_def word_le_nat_alt)
  have nn: "unat (note_min m) \<le> unat n" "unat n \<le> unat (note_max m)"
    using n by (simp_all add: m_def word_le_nat_alt)
  have un: "unat (ucast n :: u16) = unat n"
    using nn b2 by (simp add: unsigned_ucast_eq take_bit_nat_eq_self)
  have uc: "unat c = unat n * 100"
    using nn b2 un by (simp add: c_def unat_word_ariths)
  have in1: "unat (note_min m) * 100 \<le> unat c" "unat c \<le> unat (note_max m) * 100"
    using nn uc by simp_all
  have res: "note_to_mv_cal s channel c
      = Inr (map_f (real (unat c) / 100) (real (bracket_lo m c)) (real (bracket_lo m c + 1))
               (real (unat (matrix m ! (bracket_lo m c - 12))))
               (real (unat (matrix m ! (bracket_lo m c + 1 - 12)))))"
    using note_to_mv_cal_interp [OF nc m12 len in_range_cents [OF b3 b2 in1]]
    by (simp add: m_def)
  have nt: "real (unat c) / 100 = real (unat n)" by (simp add: uc)
  show ?thesis
  proof (cases "unat n = unat (note_max m)")
    case True
    then have lo: "bracket_lo m c = unat n - 1"
      using b1 by (simp add: bracket_lo_def uc min_def max_def)
    have n1: "1 \<le> unat n" using nn b3 by simp
    then have "real (unat n) - real (unat n - 1) = 1" by (simp add: of_nat_diff)
    then show ?thesis using n1
      unfolding c_def [symmetric] m_def [symmetric] res lo nt map_f_unit by simp
  next
    case False
    then have lo: "bracket_lo m c = unat n"
      using nn by (simp add: bracket_lo_def uc min_def max_def)
    show ?thesis
      unfolding c_def [symmetric] m_def [symmetric] res lo nt map_f_unit by simp
  qed
qed


text \<open>
  C6, as the code has it. Let \<open>m\<close> be the channel's own table (the first for channel 0,
  the second otherwise), with bounds \<open>12 \<le> note_min < note_max \<le> 127\<close>, the stage not a
  sweep stage. For every whole note \<open>n\<close> from \<open>note_min\<close> to \<open>note_max\<close> the result for
  \<open>n * 100\<close> cents is the stored entry \<open>matrix[n - 12]\<close>, whatever the entries are. If
  the stored entries from \<open>note_min\<close> to \<open>note_max\<close> do not decrease, then for queries
  \<open>c1 \<le> c2\<close> within \<open>note_min * 100 .. note_max * 100\<close> the result for \<open>c1\<close> is at most
  the result for \<open>c2\<close>.
\<close>

theorem note_to_mv_cal_monotone_exact:
  assumes own: "m = (if channel = 0 then calib_matrix_1 s else calib_matrix_2 s)"
    and lo: "12 \<le> note_min m" and lt: "note_min m < note_max m" and hi: "note_max m \<le> 127"
    and st: "stage s \<noteq> PREP_VCO_1 \<and> stage s \<noteq> PREP_VCO_2 \<and> stage s \<noteq> VCO_1 \<and> stage s \<noteq> VCO_2"
    and len: "length (matrix m) = MATRIX_LEN"
  shows "(table_nondecreasing m \<longrightarrow>
           (\<forall>c1 c2. unat (note_min m) * 100 \<le> unat c1 \<and> c1 \<le> c2
                    \<and> unat c2 \<le> unat (note_max m) * 100 \<longrightarrow>
              (\<exists>v1 v2. note_to_mv_cal s channel c1 = Inr v1
                     \<and> note_to_mv_cal s channel c2 = Inr v2 \<and> v1 \<le> v2)))
       \<and> (\<forall>n. note_min m \<le> n \<and> n \<le> note_max m \<longrightarrow>
            note_to_mv_cal s channel (ucast n * 100) = Inr (real (unat (matrix m ! (unat n - 12)))))"
proof -
  have mo: "matrix_of s channel = m" using own by (simp add: matrix_of_def)
  have "note_min m \<noteq> 0" using lo by auto
  moreover have "\<not> 127 < note_min m" using lt hi by simp
  ultimately have nc: "\<not> no_calibration s channel"
    using lt hi st unfolding no_calibration_own [OF own] by (simp add: not_less not_le)
  have m12: "12 \<le> note_min (matrix_of s channel)" using lo by (simp only: mo)
  have len': "length (matrix (matrix_of s channel)) = MATRIX_LEN" using len by (simp only: mo)
  show ?thesis
    using interp_mono [OF nc m12 len'] interp_whole_note [OF nc m12 len']
    unfolding mo by blast
qed

text \<open>C6 as stated fails: the test of a valid calibration looks at the two bounds only,
  and with the falling table the later query returns the smaller value. It looks at no
  lower limit of 12 either: with the bounds 5 and 7 the whole note 5 is a query below
  1200 cents, which returns 0 mV, while every stored entry is 1000 mV and the index
  \<open>5 - 12\<close> lies outside the table.\<close>

theorem note_to_mv_cal_falling_table:
  "\<not> no_calibration (boot_normal blank_matrix falling_matrix) 1
   \<and> (4800 :: u16) \<le> 4900
   \<and> note_to_mv_cal (boot_normal blank_matrix falling_matrix) 1 4800 = Inr 3000
   \<and> note_to_mv_cal (boot_normal blank_matrix falling_matrix) 1 4900 = Inr 2000
   \<and> \<not> no_calibration (boot_normal blank_matrix low_matrix) 1
   \<and> note_min low_matrix \<le> 5 \<and> 5 \<le> note_max low_matrix
   \<and> note_to_mv_cal (boot_normal blank_matrix low_matrix) 1 (ucast (5 :: u8) * 100) = Inr 0
   \<and> set (matrix low_matrix) = {1000}
   \<and> mat_read (matrix low_matrix) (note_index 5) = Inl (OutOfBounds 65529)"
  by (simp add: note_to_mv_cal_def boot_normal_def init_check_def calibration_static_def
      read_matrices_def falling_matrix_def low_matrix_def blank_matrix_def no_calibration_def
      matrix_of_def Let_def bracket_def truncf_def note_index_def mat_read_def and_then_def
      map_f_def MATRIX_LEN_def)

theorem note_to_mv_cal_monotone_exact_witness:
  "calib_matrix_1 (boot_normal ramp_matrix falling_matrix) = ramp_matrix
   \<and> calib_matrix_2 (boot_normal ramp_matrix falling_matrix) = falling_matrix
   \<and> table_nondecreasing ramp_matrix
   \<and> (\<exists>v1 v2. note_to_mv_cal (boot_normal ramp_matrix falling_matrix) 0 4830 = Inr v1
             \<and> note_to_mv_cal (boot_normal ramp_matrix falling_matrix) 0 4960 = Inr v2
             \<and> v1 \<le> v2)
   \<and> note_to_mv_cal (boot_normal ramp_matrix falling_matrix) 0 4900 = Inr 2000
   \<and> \<not> table_nondecreasing falling_matrix
   \<and> note_to_mv_cal (boot_normal ramp_matrix falling_matrix) 1 4800 = Inr 3000
   \<and> note_to_mv_cal (boot_normal ramp_matrix falling_matrix) 1 4900 = Inr 2000
   \<and> note_to_mv_cal (boot_normal ramp_matrix falling_matrix) 1 5000 = Inr 1000"
proof -
  define s where "s = boot_normal ramp_matrix falling_matrix"
  have t: "calib_matrix_1 s = ramp_matrix" "calib_matrix_2 s = falling_matrix" "stage s = NONE"
    using boot_normal_tables by (simp_all add: s_def)
  have o0: "ramp_matrix = (if (0 :: u8) = 0 then calib_matrix_1 s else calib_matrix_2 s)"
    and o1: "falling_matrix = (if (1 :: u8) = 0 then calib_matrix_1 s else calib_matrix_2 s)"
    using t by simp_all
  have st: "stage s \<noteq> PREP_VCO_1 \<and> stage s \<noteq> PREP_VCO_2 \<and> stage s \<noteq> VCO_1 \<and> stage s \<noteq> VCO_2"
    using t by simp
  have r: "12 \<le> note_min ramp_matrix" "note_min ramp_matrix < note_max ramp_matrix"
    "note_max ramp_matrix \<le> 127" "length (matrix ramp_matrix) = MATRIX_LEN"
    by (simp_all add: ramp_matrix_def)
  have f: "12 \<le> note_min falling_matrix" "note_min falling_matrix < note_max falling_matrix"
    "note_max falling_matrix \<le> 127" "length (matrix falling_matrix) = MATRIX_LEN"
    by (simp_all add: falling_matrix_def)
  have tr: "table_nondecreasing ramp_matrix" by code_simp
  have tf: "\<not> table_nondecreasing falling_matrix" by code_simp
  note c0 = note_to_mv_cal_monotone_exact [OF o0 r(1) r(2) r(3) st r(4)]
  note c1 = note_to_mv_cal_monotone_exact [OF o1 f(1) f(2) f(3) st f(4)]
  have a: "unat (note_min ramp_matrix) * 100 \<le> unat (4830 :: u16) \<and> (4830 :: u16) \<le> 4960
           \<and> unat (4960 :: u16) \<le> unat (note_max ramp_matrix) * 100"
    by (simp add: ramp_matrix_def)
  have b: "note_min ramp_matrix \<le> 49 \<and> (49 :: u8) \<le> note_max ramp_matrix"
    by (simp add: ramp_matrix_def)
  have d: "note_min falling_matrix \<le> 48 \<and> (48 :: u8) \<le> note_max falling_matrix"
    "note_min falling_matrix \<le> 49 \<and> (49 :: u8) \<le> note_max falling_matrix"
    "note_min falling_matrix \<le> 50 \<and> (50 :: u8) \<le> note_max falling_matrix"
    by (simp_all add: falling_matrix_def)
  have m: "\<exists>v1 v2. note_to_mv_cal s 0 4830 = Inr v1 \<and> note_to_mv_cal s 0 4960 = Inr v2 \<and> v1 \<le> v2"
    using c0 tr a by blast
  have "note_to_mv_cal s 0 (ucast (49 :: u8) * 100)
      = Inr (real (unat (matrix ramp_matrix ! (unat (49 :: u8) - 12))))"
    using c0 b by blast
  then have e0: "note_to_mv_cal s 0 4900 = Inr 2000"
    by (simp add: ramp_matrix_def MATRIX_LEN_def)
  have "note_to_mv_cal s 1 (ucast (48 :: u8) * 100)
      = Inr (real (unat (matrix falling_matrix ! (unat (48 :: u8) - 12))))"
    using c1 d(1) by blast
  then have e1: "note_to_mv_cal s 1 4800 = Inr 3000"
    by (simp add: falling_matrix_def MATRIX_LEN_def)
  have "note_to_mv_cal s 1 (ucast (49 :: u8) * 100)
      = Inr (real (unat (matrix falling_matrix ! (unat (49 :: u8) - 12))))"
    using c1 d(2) by blast
  then have e2: "note_to_mv_cal s 1 4900 = Inr 2000"
    by (simp add: falling_matrix_def MATRIX_LEN_def)
  have "note_to_mv_cal s 1 (ucast (50 :: u8) * 100)
      = Inr (real (unat (matrix falling_matrix ! (unat (50 :: u8) - 12))))"
    using c1 d(3) by blast
  then have e3: "note_to_mv_cal s 1 5000 = Inr 1000"
    by (simp add: falling_matrix_def MATRIX_LEN_def)
  show ?thesis using t tr tf m e0 e1 e2 e3 unfolding s_def by blast
qed

section \<open>Button classification\<close>

text \<open>\<open>btn\<close> runs the handler that \<open>btn_classify\<close> names, on the state with the pair of
  timer and flag that \<open>btn_classify\<close> returns.\<close>

lemma btn_classify_refines:
  "btn s time btn_pressed dip =
     (case btn_classify (btn_timer s, btn_handled s) time btn_pressed of
        ((t', h'), None) \<Rightarrow> s\<lparr>btn_timer := t', btn_handled := h'\<rparr>
      | ((t', h'), Some ShortPress) \<Rightarrow> btn_short_press (s\<lparr>btn_timer := t', btn_handled := h'\<rparr>)
      | ((t', h'), Some LongPress) \<Rightarrow> btn_long_press (s\<lparr>btn_timer := t', btn_handled := h'\<rparr>) dip)"
proof (cases btn_pressed)
  case True
  define s1 where "s1 = (if btn_timer s > time then s\<lparr>btn_timer := time\<rparr> else s)"
  define s2 where "s2 = (if btn_timer s1 = 0 then s1\<lparr>btn_timer := time, btn_handled := False\<rparr> else s1)"
  define t2 where "t2 = btn_timer s2"
  define h2 where "h2 = btn_handled s2"
  define L where "L = (\<not> h2 \<and> t2 \<noteq> 0 \<and> time - t2 \<ge> BTN_LONG_PRESS)"
  have l: "btn s time True dip
      = (if L then btn_long_press (s2\<lparr>btn_handled := True\<rparr>) dip else s2)"
    by (simp add: btn_def Let_def s1_def s2_def t2_def h2_def L_def)
  have c: "btn_classify (btn_timer s, btn_handled s) time True
      = (if L then ((t2, True), Some LongPress) else ((t2, h2), None))"
    by (simp add: btn_classify_def Let_def s1_def s2_def t2_def h2_def L_def word_neq_0_conv)
  have e: "s\<lparr>btn_timer := t2, btn_handled := h2\<rparr> = s2"
    by (simp add: s1_def s2_def t2_def h2_def)
  have e': "s\<lparr>btn_timer := t2, btn_handled := True\<rparr> = s2\<lparr>btn_handled := True\<rparr>"
    by (simp add: s1_def s2_def t2_def h2_def)
  have bp: "btn_pressed = True" using True by simp
  show ?thesis unfolding bp l c
    by (cases L) (simp_all only: if_True if_False prod.case option.case ButtonEvent.case e e')
next
  case False
  define s1 where "s1 = (if btn_timer s > time then s\<lparr>btn_timer := time\<rparr> else s)"
  define t1 where "t1 = btn_timer s1"
  define h where "h = btn_handled s"
  define R where "R = (t1 \<noteq> 0 \<and> time - t1 \<ge> BTN_DEBOUNCE)"
  have h1: "btn_handled s1 = h" by (simp add: s1_def h_def)
  have l: "btn s time False dip
      = (if R
         then (if \<not> h then btn_short_press (s1\<lparr>btn_timer := 0, btn_handled := True\<rparr>)
               else s1\<lparr>btn_timer := 0\<rparr>)
         else s1)"
    unfolding btn_def Let_def s1_def [symmetric] by (simp add: t1_def h1 R_def)
  have c: "btn_classify (btn_timer s, btn_handled s) time False
      = (if R then (if \<not> h then ((0, True), Some ShortPress) else ((0, True), None))
         else ((t1, h), None))"
    by (auto simp add: btn_classify_def Let_def s1_def t1_def h_def R_def)
  have e: "s\<lparr>btn_timer := t1, btn_handled := h\<rparr> = s1"
    by (simp add: s1_def t1_def h_def)
  have e0: "s\<lparr>btn_timer := 0, btn_handled := True\<rparr> = s1\<lparr>btn_timer := 0, btn_handled := True\<rparr>"
    by (simp add: s1_def)
  have e1: "h \<Longrightarrow> s\<lparr>btn_timer := 0, btn_handled := True\<rparr> = s1\<lparr>btn_timer := 0\<rparr>"
    by (simp add: s1_def h_def)
  have bp: "btn_pressed = False" using False by simp
  have "(if R
         then (if \<not> h then btn_short_press (s1\<lparr>btn_timer := 0, btn_handled := True\<rparr>)
               else s1\<lparr>btn_timer := 0\<rparr>)
         else s1)
      = (case (if R then (if \<not> h then ((0, True), Some ShortPress) else ((0, True), None))
               else ((t1, h), None)) of
           ((t', h'), None) \<Rightarrow> s\<lparr>btn_timer := t', btn_handled := h'\<rparr>
         | ((t', h'), Some ShortPress) \<Rightarrow>
             btn_short_press (s\<lparr>btn_timer := t', btn_handled := h'\<rparr>)
         | ((t', h'), Some LongPress) \<Rightarrow>
             btn_long_press (s\<lparr>btn_timer := t', btn_handled := h'\<rparr>) dip)"
  proof (cases R)
    case True
    note r = this
    show ?thesis
    proof (cases h)
      case True
      show ?thesis using e1 [OF True] r True
        by (simp only: if_True if_False prod.case option.case not_True_eq_False)
    next
      case False
      show ?thesis using r False
        by (simp only: if_True if_False prod.case option.case ButtonEvent.case e0
            not_False_eq_True)
    qed
  next
    case False
    then show ?thesis by (simp only: if_False prod.case option.case e)
  qed
  then show ?thesis unfolding bp l c .
qed

lemma classify_held:
  assumes "t0 \<noteq> 0" and "t0 \<le> t"
  shows "btn_classify (t0, h) t True
         = ((t0, h \<or> BTN_LONG_PRESS \<le> t - t0),
            if \<not> h \<and> BTN_LONG_PRESS \<le> t - t0 then Some LongPress else None)"
  using assms by (auto simp: btn_classify_def Let_def not_less)

lemma classify_released:
  assumes "t0 \<noteq> 0" and "t0 \<le> t"
  shows "btn_classify (t0, h) t False
         = (if BTN_DEBOUNCE \<le> t - t0
            then ((0, True), if h then None else Some ShortPress)
            else ((t0, h), None))"
  using assms by (auto simp: btn_classify_def Let_def not_less)

lemma classify_idle_released: "btn_classify (0, h) t False = ((0, h), None)"
  by (simp add: btn_classify_def Let_def)

lemma classify_idle_pressed:
  assumes "t \<noteq> 0"
  shows "btn_classify (0, h) t True = ((t, False), None)"
  using assms by (simp add: btn_classify_def Let_def BTN_LONG_PRESS_def)

lemma run_idle_released: "btn_run (0, h) (map (\<lambda>t. (t, False)) rs) = []"
  by (induction rs) (simp_all add: classify_idle_released)

text \<open>While a press is latched at \<open>t0\<close>, pressed samples and released samples less than
  \<open>BTN_DEBOUNCE\<close> after \<open>t0\<close> leave the timer alone; the first pressed sample that reaches
  the long-press threshold fires, once.\<close>

lemma run_bouncing:
  assumes "t0 \<noteq> 0"
    and "\<forall>(t, p) \<in> set xs. t0 \<le> t \<and> (\<not> p \<longrightarrow> t - t0 < BTN_DEBOUNCE)"
  shows "btn_run (t0, h) (xs @ rest)
         = (if \<not> h \<and> (\<exists>(t, p) \<in> set xs. p \<and> BTN_LONG_PRESS \<le> t - t0)
            then LongPress # btn_run (t0, True) rest
            else btn_run (t0, h) rest)"
  using assms
proof (induction xs arbitrary: h)
  case Nil
  then show ?case by simp
next
  case (Cons x xs)
  obtain t p where x: "x = (t, p)" by fastforce
  have t: "t0 \<le> t" and b: "\<not> p \<longrightarrow> t - t0 < BTN_DEBOUNCE"
    using Cons.prems(2) x by auto
  have rest: "\<forall>(t, p) \<in> set xs. t0 \<le> t \<and> (\<not> p \<longrightarrow> t - t0 < BTN_DEBOUNCE)"
    using Cons.prems(2) by simp
  note ih = Cons.IH [OF Cons.prems(1) rest]
  show ?case
  proof (cases p)
    case True
    show ?thesis
    proof (cases "BTN_LONG_PRESS \<le> t - t0")
      case long: True
      show ?thesis using True long x ih [of True] classify_held [OF Cons.prems(1) t, of h]
        by (cases h) (simp_all add: ih [of True])
    next
      case short: False
      show ?thesis using True short x ih [of h] classify_held [OF Cons.prems(1) t, of h]
        by simp
    qed
  next
    case False
    then have "\<not> BTN_DEBOUNCE \<le> t - t0" using b by (simp add: not_le)
    then show ?thesis using False x ih [of h] classify_released [OF Cons.prems(1) t, of h]
      by simp
  qed
qed

lemma run_released:
  assumes "t0 \<noteq> 0" and "\<forall>t \<in> set rs. t0 \<le> t"
  shows "btn_run (t0, h) (map (\<lambda>t. (t, False)) rs)
         = (if (\<exists>u \<in> set rs. BTN_DEBOUNCE \<le> u - t0) \<and> \<not> h then [ShortPress] else [])"
  using assms
proof (induction rs)
  case Nil
  then show ?case by simp
next
  case (Cons r rs)
  show ?case
  proof (cases "BTN_DEBOUNCE \<le> r - t0")
    case True
    then show ?thesis using Cons.prems run_idle_released [of True rs]
      by (simp add: classify_released)
  next
    case False
    then show ?thesis using Cons by (simp add: classify_released)
  qed
qed

lemma run_press_bouncing:
  assumes s: "sorted (t0 # map fst xs @ rs)" and t0: "t0 \<noteq> 0"
    and b: "\<forall>(t, p) \<in> set xs. \<not> p \<longrightarrow> t - t0 < BTN_DEBOUNCE"
  shows "btn_run (0, h) ((t0, True) # xs @ map (\<lambda>t. (t, False)) rs)
         = (if \<exists>(t, p) \<in> set xs. p \<and> BTN_LONG_PRESS \<le> t - t0 then [LongPress]
            else if \<exists>u \<in> set rs. BTN_DEBOUNCE \<le> u - t0 then [ShortPress]
            else [])"
proof -
  have ge: "\<forall>x \<in> set xs. t0 \<le> fst x" and c: "\<forall>t \<in> set rs. t0 \<le> t"
    using s by auto
  have a: "\<forall>(t, p) \<in> set xs. t0 \<le> t \<and> (\<not> p \<longrightarrow> t - t0 < BTN_DEBOUNCE)"
    using ge b by fastforce
  show ?thesis
    using run_bouncing [OF t0 a, of False "map (\<lambda>t. (t, False)) rs"] run_released [OF t0 c] t0
    by (simp add: classify_idle_pressed)
qed


text \<open>
  C8, as the code has it. One physical press that begins while the button logic is idle
  (\<open>btn_timer = 0\<close>), sampled by successive calls of \<open>btn\<close>: a first pressed sample at
  \<open>t0\<close> (not 0), then samples \<open>xs\<close>, pressed or released, in which every released
  sample is less than \<open>BTN_DEBOUNCE\<close> after \<open>t0\<close> (contact bounce, which the code
  ignores), then released samples \<open>rs\<close> only; the time stamps in order. So no pressed
  sample follows a released sample that is \<open>BTN_DEBOUNCE\<close> or more after \<open>t0\<close>. If a
  pressed sample reaches the long-press threshold (\<open>t - t0 \<ge> BTN_LONG_PRESS\<close>), the events
  are exactly one long press and no short press, whatever the release looks like; during
  the hold the long press has fired exactly once as soon as a sample has reached the
  threshold, and nothing has fired before. If no pressed sample reaches it, the events
  are exactly one short press and no long press, fired once a released sample is at least
  \<open>BTN_DEBOUNCE\<close> after \<open>t0\<close>.
\<close>

theorem btn_one_press:
  assumes s: "sorted (t0 # map fst xs @ rs)" and t0: "t0 \<noteq> 0"
    and b: "\<forall>(t, p) \<in> set xs. \<not> p \<longrightarrow> t - t0 < BTN_DEBOUNCE"
  shows "btn_run (0, h) ((t0, True) # xs @ map (\<lambda>t. (t, False)) rs)
         = (if \<exists>(t, p) \<in> set xs. p \<and> BTN_LONG_PRESS \<le> t - t0 then [LongPress]
            else if \<exists>u \<in> set rs. BTN_DEBOUNCE \<le> u - t0 then [ShortPress]
            else [])
       \<and> (\<forall>n. btn_run (0, h) ((t0, True) # take n xs)
              = (if \<exists>(t, p) \<in> set (take n xs). p \<and> BTN_LONG_PRESS \<le> t - t0
                 then [LongPress] else []))"
proof (intro conjI allI)
  show "btn_run (0, h) ((t0, True) # xs @ map (\<lambda>t. (t, False)) rs)
         = (if \<exists>(t, p) \<in> set xs. p \<and> BTN_LONG_PRESS \<le> t - t0 then [LongPress]
            else if \<exists>u \<in> set rs. BTN_DEBOUNCE \<le> u - t0 then [ShortPress]
            else [])"
    using run_press_bouncing [OF s t0 b] .
next
  fix n
  have ge: "\<forall>x \<in> set (map fst xs). t0 \<le> x" and so: "sorted (map fst xs)"
    using s by (auto simp: sorted_append)
  have "\<forall>x \<in> set (take n (map fst xs)). t0 \<le> x"
    using ge in_set_takeD [of _ n "map fst xs"] by blast
  moreover have "sorted (take n (map fst xs))"
    using so by (rule sorted_wrt_take)
  ultimately have s': "sorted (t0 # map fst (take n xs) @ [])"
    by (simp add: take_map)
  have b': "\<forall>(t, p) \<in> set (take n xs). \<not> p \<longrightarrow> t - t0 < BTN_DEBOUNCE"
    using b in_set_takeD [of _ n xs] by blast
  from run_press_bouncing [OF s' t0 b', of h]
  show "btn_run (0, h) ((t0, True) # take n xs)
        = (if \<exists>(t, p) \<in> set (take n xs). p \<and> BTN_LONG_PRESS \<le> t - t0
           then [LongPress] else [])"
    by simp
qed

theorem btn_one_press_witness:
  "btn_run (0, True) [(1000, True), (1050, True), (1100, False), (1300, False)] = [ShortPress]
   \<and> btn_run (0, True) [(1000, True), (1010, False), (1020, True), (1100, False), (1300, False)]
     = [ShortPress]
   \<and> btn_run (0, True) [(1000, True), (1010, False), (1600, True), (2200, True), (2300, False)]
     = [LongPress]
   \<and> btn_run (0, True) [(1000, True), (1010, False), (1600, True)] = []
   \<and> btn_run (0, True) [(1000, True), (1010, False), (1600, True), (2200, True)] = [LongPress]"
proof -
  have a: "sorted ((1000 :: u64) # map fst [(1050, True)] @ [1100, 1300])" by simp
  have a': "\<forall>(t, p) \<in> set [(1050 :: u64, True)]. \<not> p \<longrightarrow> t - 1000 < BTN_DEBOUNCE" by simp
  have b: "sorted ((1000 :: u64) # map fst [(1010, False), (1020, True)] @ [1100, 1300])" by simp
  have b': "\<forall>(t, p) \<in> set [(1010 :: u64, False), (1020, True)]. \<not> p \<longrightarrow> t - 1000 < BTN_DEBOUNCE"
    by (simp add: BTN_DEBOUNCE_def)
  have c: "sorted ((1000 :: u64) # map fst [(1010, False), (1600, True), (2200, True)] @ [2300])"
    by simp
  have c': "\<forall>(t, p) \<in> set [(1010 :: u64, False), (1600, True), (2200, True)].
              \<not> p \<longrightarrow> t - 1000 < BTN_DEBOUNCE"
    by (simp add: BTN_DEBOUNCE_def)
  have z: "(1000 :: u64) \<noteq> 0" by simp
  have "btn_run (0, True) [(1000, True), (1050, True), (1100, False), (1300, False)] = [ShortPress]"
    using btn_one_press [OF a z a', of True] by (simp add: BTN_LONG_PRESS_def BTN_DEBOUNCE_def)
  moreover
  have "btn_run (0, True) [(1000, True), (1010, False), (1020, True), (1100, False), (1300, False)]
      = [ShortPress]"
    using btn_one_press [OF b z b', of True] by (simp add: BTN_LONG_PRESS_def BTN_DEBOUNCE_def)
  moreover
  have "btn_run (0, True) [(1000, True), (1010, False), (1600, True), (2200, True), (2300, False)]
      = [LongPress]"
    using btn_one_press [OF c z c', of True] by (simp add: BTN_LONG_PRESS_def BTN_DEBOUNCE_def)
  moreover
  have p: "\<forall>n. btn_run (0, True) ((1000, True) # take n [(1010, False), (1600, True), (2200, True)])
              = (if \<exists>(t, p) \<in> set (take n [(1010 :: u64, False), (1600, True), (2200, True)]).
                      p \<and> BTN_LONG_PRESS \<le> t - 1000
                 then [LongPress] else [])"
    using btn_one_press [OF c z c', of True] by blast
  have "btn_run (0, True) [(1000, True), (1010, False), (1600, True)] = []"
    using p [rule_format, of 2] by (simp add: BTN_LONG_PRESS_def)
  moreover
  have "btn_run (0, True) [(1000, True), (1010, False), (1600, True), (2200, True)] = [LongPress]"
    using p [rule_format, of 3] by (simp add: BTN_LONG_PRESS_def)
  ultimately show ?thesis by blast
qed

text \<open>C8 as stated fails for the press that is held at power-on: \<open>init_check\<close> marks it as
  handled, and held for 1280 ms more it fires no event at all. It fails as well when the
  contact bounces at the release, \<open>BTN_DEBOUNCE\<close> or more after the press began: the
  released sample clears the timer, the pressed sample of the bounce latches a new press
  with \<open>btn_handled\<close> cleared (line 407), and the release of that one fires a short
  press. A long press then counts as a long and a short press, a short press as two. And a
  first pressed sample at \<^verbatim>\<open>millis() = 0\<close> latches the timer value 0, which means idle:
  the press begins for the code at the next pressed sample.\<close>

theorem btn_press_miscounted:
  "btn_timer boot_calibration = 1 \<and> btn_handled boot_calibration
   \<and> btn_run (btn_timer boot_calibration, btn_handled boot_calibration)
       [(20, True), (600, True), (1300, True), (1400, False), (1500, False)] = []
   \<and> btn_run (0, True) [(1000, True), (2200, True), (2300, False), (2310, True), (2600, False)]
     = [LongPress, ShortPress]
   \<and> btn_run (0, True) [(1000, True), (1300, False), (1310, True), (1600, False)]
     = [ShortPress, ShortPress]
   \<and> btn_run (0, True) [(0, True), (1200, True), (1300, False)] = []"
  by (simp add: boot_calibration_def init_check_def calibration_static_def read_matrices_def
      Let_def btn_classify_def BTN_DEBOUNCE_def BTN_LONG_PRESS_def)

section \<open>The linearity sweep\<close>

lemma vco_1_entered_eq:
  "vco_1_entered =
     (calibration_static 0 0 blank_matrix blank_matrix)
       \<lparr>active := True, stage := VCO_1, stage_vco := VcoTUNER, btn_timer := 1,
        btn_handled := True, calib_matrix_1 := blank_matrix, calib_matrix_2 := blank_matrix\<rparr>"
  by (simp add: vco_1_entered_def eval_nat_numeral btn_short_press_def dac_set_def
      btn_long_press_def clear_bounds_def init_check_def calibration_static_def
      read_matrices_def dip_to_gain_offset_def blank_matrix_def Let_def)

lemma linearity_entered_eq: "linearity_entered = Inr linearity_start"
  unfolding linearity_entered_def linearity_start_def vco_1_entered_eq
  by (simp add: vco_def calibration_static_def and_then_def abs_int_def
      CALIB_VCO_START_DEV_CENTS_def CALIB_VCO_START_DELAY_INIT_def
      CALIB_VCO_START_DELAY_LINEARITY_def set_dac_cv_def dac_set_def vco_channel_def
      CALIB_VCO_MV_MIN_def Let_def word_sless_alt)


lemmas sweep_defs =
  vco_linearity_def stabilized_def abs_int_def vco_sample_def vco_advance_def
  CALIB_VCO_DELAY_BETWEEN_MV_def VCO_LAST_CENTS_STAB_def set_dac_cv_def dac_set_def
  vco_channel_def vco_matrix_def vco_matrix_update_def get_current_maximum_def
  GAIN_1_BASE_def GAIN_2_BASE_def CALIB_VCO_MAX_SCALE_def mat_write_def note_index_def
  write_matrices_def and_then_def Let_def word_sless_alt

lemma replicate_5: "replicate 5 x = [x, x, x, x, x]"
  by (simp add: eval_nat_numeral)

lemma list_update_Cons_numeral: "(a # xs)[numeral n := v] = a # xs[numeral n - 1 := v]"
  by (simp add: numeral_eq_Suc)

lemma first_reading_above_range:
  "vco_linearity_run linearity_start (steady 7100 12800) 5000 = Inl (OutOfBounds 65524)"
  by (simp add: steady_def linearity_start_def vco_1_entered_eq calibration_static_def
      blank_matrix_def MATRIX_LEN_def sweep_defs replicate_5 list_update_Cons_numeral)


lemma vco_advance_keeps:
  assumes "vco_advance s c vcc = Inr s'" and "stage s' \<noteq> DONE"
  shows "calib_matrix_1 s' = calib_matrix_1 s \<and> calib_matrix_2 s' = calib_matrix_2 s
         \<and> address_last s' = address_last s \<and> stage s' = stage s"
  using assms
  by (auto simp: vco_advance_def Let_def and_then_def dac_set_def set_dac_cv_def
      split: if_splits sum.splits)

lemma vco_sample_guard:
  assumes "1200 \<le> vco_cents" "vco_cents \<le> 12700"
    and "1200 \<le> vco_cents_last s" "vco_cents_last s \<le> 12700"
    and "(ucast (vco_cents_last s div 100) :: u8) < ucast (vco_cents div 100)"
    and "address_last s \<noteq> 255"
    and "(ucast ((ucast (ucast (vco_cents_last s div 100) :: u8) :: u16) - 12) :: u8) < address_last s
         \<or> 1 < (ucast ((ucast (ucast (vco_cents_last s div 100) :: u8) :: u16) - 12) :: u8) - address_last s"
  shows "\<exists>s'. vco_sample s vco_cents vcc = Inr s' \<and> stage s' = ERROR
              \<and> matrix (calib_matrix_1 s') = matrix (calib_matrix_1 s)
              \<and> matrix (calib_matrix_2 s') = matrix (calib_matrix_2 s)"
  using assms
  by (auto simp: vco_sample_def Let_def vco_matrix_update_def vco_matrix_def)


lemma vco_sample_writes:
  assumes r: "vco_sample s c vcc = Inr s'" and nd: "stage s' \<noteq> DONE"
    and ch: "matrix (calib_matrix_1 s') ! i \<noteq> matrix (calib_matrix_1 s) ! i
             \<or> matrix (calib_matrix_2 s') ! i \<noteq> matrix (calib_matrix_2 s) ! i"
  shows "unat (address_last s') = i
         \<and> (address_last s = 255 \<or> address_last s < address_last s')"
proof -
  define vn where "vn = (ucast (c div 100) :: u8)"
  define vnl where "vnl = (ucast (vco_cents_last s div 100) :: u8)"
  define s1 where "s1 = (if vn = vnl \<and> c mod 100 < vco_cents_last s mod 100
                  then s\<lparr>vco_note_closest_mv := mv_current s\<rparr> else s)"
  define m where "m = (if note_min (vco_matrix s1) > 127
                      then (vco_matrix s1)\<lparr>note_min := vnl\<rparr> else vco_matrix s1)"
  define s2 where "s2 = vco_matrix_update s1 m"
  define address where "address = (ucast ((ucast vnl :: u16) - 12) :: u8)"
  have s1m: "calib_matrix_1 s1 = calib_matrix_1 s" "calib_matrix_2 s1 = calib_matrix_2 s"
    "address_last s1 = address_last s" "stage s1 = stage s"
    by (simp_all add: s1_def)
  have mm: "matrix m = matrix (vco_matrix s)"
    by (simp add: m_def vco_matrix_def s1m)
  have s2m: "matrix (calib_matrix_1 s2) = matrix (calib_matrix_1 s)"
    "matrix (calib_matrix_2 s2) = matrix (calib_matrix_2 s)"
    "address_last s2 = address_last s" "stage s2 = stage s"
    by (simp_all add: s2_def vco_matrix_update_def mm vco_matrix_def s1m)
  define rng where "rng = (c \<ge> 1200 \<and> c \<le> 12700 \<and> vco_cents_last s \<ge> 1200 \<and> vco_cents_last s \<le> 12700)"
  define E where "E = (address_last s2 \<noteq> 255 \<and> (address < address_last s2 \<or> address - address_last s2 > 1))"
  define W where "W = (address_last s2 = 255 \<or> address > address_last s2)"
  define N where "N = (vn > vnl)"
  have shape: "vco_sample s c vcc =
     (if rng then
        (if N then
           (if E then Inr (s2\<lparr>stage := ERROR\<rparr>)
            else if W
            then and_then (mat_write (matrix m) (unat address) (vco_note_closest_mv s2))
                       (\<lambda>tbl. vco_advance
                                 ((vco_matrix_update s2 (m\<lparr>matrix := tbl\<rparr>))
                                    \<lparr>address_last := address,
                                     vco_note_closest_mv := mv_current s2\<rparr>)
                                 c vcc)
            else vco_advance s2 c vcc)
         else vco_advance s1 c vcc)
      else vco_advance (s\<lparr>vco_note_closest_mv := mv_current s\<rparr>) c vcc)"
    by (simp only: vco_sample_def Let_def rng_def E_def W_def N_def vn_def vnl_def s1_def m_def
        s2_def address_def)
  show ?thesis
  proof (cases rng)
    case False
    then have "vco_advance (s\<lparr>vco_note_closest_mv := mv_current s\<rparr>) c vcc = Inr s'"
      using r unfolding shape by (simp only: if_False)
    from vco_advance_keeps [OF this nd] ch show ?thesis by simp
  next
    case True
    note rg = this
    show ?thesis
    proof (cases N)
      case False
      then have "vco_advance s1 c vcc = Inr s'"
        using r rg unfolding shape by (simp only: if_False if_True)
      from vco_advance_keeps [OF this nd] ch s1m show ?thesis by simp
    next
      case True
      note nn = this
      show ?thesis
      proof (cases E)
        case True
        then have "Inr (s2\<lparr>stage := ERROR\<rparr>) = (Inr s' :: fault + Calibration)"
          using r rg nn unfolding shape by (simp only: if_True)
        then have "s' = s2\<lparr>stage := ERROR\<rparr>" by simp
        then show ?thesis using ch s2m by simp
      next
        case False
        note ne = this
        show ?thesis
        proof (cases W)
          case True
          then have e: "and_then (mat_write (matrix m) (unat address) (vco_note_closest_mv s2))
                       (\<lambda>tbl. vco_advance
                                 ((vco_matrix_update s2 (m\<lparr>matrix := tbl\<rparr>))
                                    \<lparr>address_last := address,
                                     vco_note_closest_mv := mv_current s2\<rparr>)
                                 c vcc) = Inr s'"
            using r rg nn ne unfolding shape by (simp only: if_True if_False)
          define s3 where "s3 = (vco_matrix_update s2 (m\<lparr>matrix := (matrix m)[unat address := vco_note_closest_mv s2]\<rparr>))
                            \<lparr>address_last := address, vco_note_closest_mv := mv_current s2\<rparr>"
          have a: "vco_advance s3 c vcc = Inr s'"
            using e by (auto simp: and_then_def mat_write_def s3_def split: if_splits)
          have k: "calib_matrix_1 s' = calib_matrix_1 s3" "calib_matrix_2 s' = calib_matrix_2 s3"
            "address_last s' = address_last s3"
            using vco_advance_keeps [OF a nd] by simp_all
          have al: "address_last s3 = address" by (simp add: s3_def)
          have t1: "matrix (calib_matrix_1 s3) ! j = matrix (calib_matrix_1 s) ! j"
            if "j \<noteq> unat address" for j
            using that by (simp add: s3_def s2_def vco_matrix_update_def mm vco_matrix_def s1m)
          have t2: "matrix (calib_matrix_2 s3) ! j = matrix (calib_matrix_2 s) ! j"
            if "j \<noteq> unat address" for j
            using that by (simp add: s3_def s2_def vco_matrix_update_def mm vco_matrix_def s1m)
          have "i = unat address" using ch t1 [of i] t2 [of i] k by auto
          then show ?thesis using True k al s2m by (simp add: W_def)
        next
          case False
          then have "vco_advance s2 c vcc = Inr s'"
            using r rg nn ne unfolding shape by (simp only: if_True if_False)
          from vco_advance_keeps [OF this nd] ch s2m show ?thesis by simp
        qed
      qed
    qed
  qed
qed

lemma vco_linearity_writes:
  assumes r: "vco_linearity s time c vcc = Inr s'" and nd: "stage s' \<noteq> DONE"
    and ch: "matrix (calib_matrix_1 s') ! i \<noteq> matrix (calib_matrix_1 s) ! i
             \<or> matrix (calib_matrix_2 s') ! i \<noteq> matrix (calib_matrix_2 s) ! i"
  shows "unat (address_last s') = i
         \<and> (address_last s = 255 \<or> address_last s < address_last s')"
proof -
  define s1 where "s1 = (if vco_calib_timer s = 0 then s\<lparr>vco_calib_timer := time\<rparr> else s)"
  define counter where "counter = (if vco_cents_buffer_counter s1 < 4
                       then vco_cents_buffer_counter s1 + 1 else 0)"
  define s2 where "s2 = s1\<lparr>vco_cents_buffer_counter := counter,
                    vco_cents_buffer := (vco_cents_buffer s1)[unat counter := c]\<rparr>"
  define s3 where "s3 = s2\<lparr>vco_calib_timer := time\<rparr>"
  have k: "calib_matrix_1 s3 = calib_matrix_1 s" "calib_matrix_2 s3 = calib_matrix_2 s"
    "address_last s3 = address_last s"
    "calib_matrix_1 s2 = calib_matrix_1 s" "calib_matrix_2 s2 = calib_matrix_2 s"
    by (simp_all add: s3_def s2_def s1_def)
  have "s' = s \<or> s' = s2 \<or> vco_sample s3 c vcc = Inr s'"
    using r unfolding vco_linearity_def Let_def s1_def [symmetric] counter_def [symmetric]
      s2_def [symmetric] s3_def [symmetric]
    by (auto split: if_splits)
  then consider "s' = s" | "s' = s2" | "vco_sample s3 c vcc = Inr s'" by blast
  then show ?thesis
  proof cases
    case 1
    then show ?thesis using ch by simp
  next
    case 2
    then show ?thesis using ch k by simp
  next
    case 3
    from vco_sample_writes [OF 3 nd, of i] ch k show ?thesis by simp
  qed
qed


lemma vco_linearity_guard:
  assumes "\<not> (vco_calib_timer s \<noteq> 0 \<and> vco_calib_timer s < time
               \<and> time - vco_calib_timer s < CALIB_VCO_DELAY_BETWEEN_MV)"
    and "stabilized (vco_cents_buffer s) vco_cents"
    and "1200 \<le> vco_cents" "vco_cents \<le> 12700"
    and "1200 \<le> vco_cents_last s" "vco_cents_last s \<le> 12700"
    and "(ucast (vco_cents_last s div 100) :: u8) < ucast (vco_cents div 100)"
    and "address_last s \<noteq> 255"
    and "(ucast ((ucast (ucast (vco_cents_last s div 100) :: u8) :: u16) - 12) :: u8) < address_last s
         \<or> 1 < (ucast ((ucast (ucast (vco_cents_last s div 100) :: u8) :: u16) - 12) :: u8) - address_last s"
  shows "\<exists>s'. vco_linearity s time vco_cents vcc = Inr s' \<and> stage s' = ERROR
              \<and> matrix (calib_matrix_1 s') = matrix (calib_matrix_1 s)
              \<and> matrix (calib_matrix_2 s') = matrix (calib_matrix_2 s)"
proof -
  define s1 where "s1 = (if vco_calib_timer s = 0 then s\<lparr>vco_calib_timer := time\<rparr> else s)"
  define counter where "counter = (if vco_cents_buffer_counter s1 < 4
                       then vco_cents_buffer_counter s1 + 1 else 0)"
  define s3 where "s3 = s1\<lparr>vco_cents_buffer_counter := counter,
                    vco_cents_buffer := (vco_cents_buffer s1)[unat counter := vco_cents],
                    vco_calib_timer := time\<rparr>"
  have k: "calib_matrix_1 s3 = calib_matrix_1 s" "calib_matrix_2 s3 = calib_matrix_2 s"
    "address_last s3 = address_last s" "vco_cents_last s3 = vco_cents_last s"
    "vco_cents_buffer s1 = vco_cents_buffer s"
    by (simp_all add: s3_def s1_def)
  have "vco_linearity s time vco_cents vcc = vco_sample s3 vco_cents vcc"
    using assms(1,2) unfolding vco_linearity_def Let_def s1_def [symmetric]
      counter_def [symmetric]
    by (auto simp: k s3_def)
  moreover have "\<exists>s'. vco_sample s3 vco_cents vcc = Inr s' \<and> stage s' = ERROR
              \<and> matrix (calib_matrix_1 s') = matrix (calib_matrix_1 s3)
              \<and> matrix (calib_matrix_2 s') = matrix (calib_matrix_2 s3)"
    using assms(3-) by (intro vco_sample_guard) (simp_all add: k)
  ultimately show ?thesis by (simp add: k)
qed

text \<open>The write of a new note keeps the order. In one call of the sweep (sub-stage
  LINEARITY), when a stable reading shows a new note and the address \<open>vco_note_last - 12\<close>
  of the entry to write is below the last written address or more than 1 above it, the
  stage becomes ERROR and no table entry of either channel changes. In every call that
  does not end the sweep, an entry that changes is the one at the new last written
  address, which is above the previous one (or the first one written).\<close>

lemma vco_linearity_new_note_order:
  "(\<not> (vco_calib_timer s \<noteq> 0 \<and> vco_calib_timer s < time
         \<and> time - vco_calib_timer s < CALIB_VCO_DELAY_BETWEEN_MV)
     \<and> stabilized (vco_cents_buffer s) vco_cents
     \<and> 1200 \<le> vco_cents \<and> vco_cents \<le> 12700
     \<and> 1200 \<le> vco_cents_last s \<and> vco_cents_last s \<le> 12700
     \<and> (ucast (vco_cents_last s div 100) :: u8) < ucast (vco_cents div 100)
     \<and> address_last s \<noteq> 255
     \<and> ((ucast ((ucast (ucast (vco_cents_last s div 100) :: u8) :: u16) - 12) :: u8)
            < address_last s
         \<or> 1 < (ucast ((ucast (ucast (vco_cents_last s div 100) :: u8) :: u16) - 12) :: u8)
                 - address_last s)
     \<longrightarrow> (\<exists>s'. vco_linearity s time vco_cents vcc = Inr s' \<and> stage s' = ERROR
               \<and> matrix (calib_matrix_1 s') = matrix (calib_matrix_1 s)
               \<and> matrix (calib_matrix_2 s') = matrix (calib_matrix_2 s)))
   \<and> (vco_linearity s time vco_cents vcc = Inr s' \<and> stage s' \<noteq> DONE
       \<and> (matrix (calib_matrix_1 s') ! i \<noteq> matrix (calib_matrix_1 s) ! i
          \<or> matrix (calib_matrix_2 s') ! i \<noteq> matrix (calib_matrix_2 s) ! i)
     \<longrightarrow> unat (address_last s') = i
         \<and> (address_last s = 255 \<or> address_last s < address_last s'))"
  using vco_linearity_guard [of s time vco_cents vcc] vco_linearity_writes [of s time vco_cents vcc s' i]
  by blast

lemma mid_sweep_fields:
  "vco_calib_timer (mid_sweep prev reading) = 8800
   \<and> vco_cents_buffer (mid_sweep prev reading) = [reading, reading, reading, reading, reading]
   \<and> vco_cents_last (mid_sweep prev reading) = prev
   \<and> address_last (mid_sweep prev reading) = 49
   \<and> matrix (calib_matrix_1 (mid_sweep prev reading)) = (replicate MATRIX_LEN 65535)[48 := 10, 49 := 11]"
  by (simp add: mid_sweep_def linearity_start_def replicate_5 VCO_LAST_CENTS_STAB_def)

lemma mid_sweep_step:
  "vco_linearity (mid_sweep 6210 6310) 9400 6310 5000 = Inr mid_sweep_written"
  by (simp add: mid_sweep_written_def mid_sweep_def linearity_start_def vco_1_entered_eq
      calibration_static_def blank_matrix_def MATRIX_LEN_def sweep_defs replicate_5
      list_update_Cons_numeral)

lemma vco_linearity_new_note_order_example:
  "stabilized (vco_cents_buffer (mid_sweep 6350 6450)) 6450
   \<and> address_last (mid_sweep 6350 6450) = 49
   \<and> (\<exists>s'. vco_linearity (mid_sweep 6350 6450) 9400 6450 5000 = Inr s' \<and> stage s' = ERROR
          \<and> matrix (calib_matrix_1 s') = matrix (calib_matrix_1 (mid_sweep 6350 6450))
          \<and> matrix (calib_matrix_2 s') = matrix (calib_matrix_2 (mid_sweep 6350 6450)))
   \<and> vco_linearity (mid_sweep 6210 6310) 9400 6310 5000 = Inr mid_sweep_written
   \<and> stage mid_sweep_written \<noteq> DONE
   \<and> matrix (calib_matrix_1 mid_sweep_written) ! 50
       \<noteq> matrix (calib_matrix_1 (mid_sweep 6210 6310)) ! 50
   \<and> unat (address_last mid_sweep_written) = 50
   \<and> address_last (mid_sweep 6210 6310) < address_last mid_sweep_written"
proof -
  have st: "stabilized (vco_cents_buffer (mid_sweep 6350 6450)) 6450"
    by (simp add: mid_sweep_fields stabilized_def abs_int_def word_sless_alt)
  have al: "address_last (mid_sweep 6350 6450) = 49" by (simp add: mid_sweep_fields)
  have h1: "\<not> (vco_calib_timer (mid_sweep 6350 6450) \<noteq> 0
              \<and> vco_calib_timer (mid_sweep 6350 6450) < 9400
              \<and> 9400 - vco_calib_timer (mid_sweep 6350 6450) < CALIB_VCO_DELAY_BETWEEN_MV)
     \<and> stabilized (vco_cents_buffer (mid_sweep 6350 6450)) 6450
     \<and> (1200 :: u16) \<le> 6450 \<and> (6450 :: u16) \<le> 12700
     \<and> 1200 \<le> vco_cents_last (mid_sweep 6350 6450)
     \<and> vco_cents_last (mid_sweep 6350 6450) \<le> 12700
     \<and> (ucast (vco_cents_last (mid_sweep 6350 6450) div 100) :: u8) < ucast ((6450 :: u16) div 100)
     \<and> address_last (mid_sweep 6350 6450) \<noteq> 255
     \<and> ((ucast ((ucast (ucast (vco_cents_last (mid_sweep 6350 6450) div 100) :: u8) :: u16) - 12) :: u8)
            < address_last (mid_sweep 6350 6450)
         \<or> 1 < (ucast ((ucast (ucast (vco_cents_last (mid_sweep 6350 6450) div 100) :: u8) :: u16) - 12) :: u8)
                 - address_last (mid_sweep 6350 6450))"
    using st by (simp add: mid_sweep_fields CALIB_VCO_DELAY_BETWEEN_MV_def)
  have c1: "\<exists>s'. vco_linearity (mid_sweep 6350 6450) 9400 6450 5000 = Inr s' \<and> stage s' = ERROR
          \<and> matrix (calib_matrix_1 s') = matrix (calib_matrix_1 (mid_sweep 6350 6450))
          \<and> matrix (calib_matrix_2 s') = matrix (calib_matrix_2 (mid_sweep 6350 6450))"
    using vco_linearity_new_note_order [where s = "mid_sweep 6350 6450" and time = 9400 and vco_cents = 6450
        and vcc = 5000] h1
    by blast
  have w: "stage mid_sweep_written \<noteq> DONE"
    "matrix (calib_matrix_1 mid_sweep_written) ! 50
       \<noteq> matrix (calib_matrix_1 (mid_sweep 6210 6310)) ! 50"
    by (simp_all add: mid_sweep_written_def mid_sweep_def linearity_start_def vco_1_entered_eq
        MATRIX_LEN_def)
  have c2: "unat (address_last mid_sweep_written) = 50
     \<and> (address_last (mid_sweep 6210 6310) = 255
        \<or> address_last (mid_sweep 6210 6310) < address_last mid_sweep_written)"
    using vco_linearity_new_note_order [where s = "mid_sweep 6210 6310" and time = 9400 and vco_cents = 6310
        and vcc = 5000 and s' = mid_sweep_written and i = 50] mid_sweep_step w
    by blast
  have "address_last (mid_sweep 6210 6310) \<noteq> 255" by (simp add: mid_sweep_fields)
  then show ?thesis using st al c1 c2 w mid_sweep_step by blast
qed

text \<open>
  C4 asks that the sweep writes table entries at strictly increasing indices only, and
  goes to ERROR instead of writing otherwise. The write of a new note does (lines 303 to
  342, lemma \<open>vco_linearity_new_note_order\<close>); the last write of the sweep does not: lines 366 to 368 store at
  \<open>note_max - 12\<close>, with \<open>note_max = vco_cents_last / 100\<close>, without looking at
  \<open>address_last\<close>. After stable readings of 6050, 6110 and 6210 cents the entries of the
  notes 60 and 61 are written: the last written address is 49 and entry 48 holds 10 mV.
  The pitch falls back to 6050 cents, which writes nothing; the next stable reading,
  12750 cents, ends the sweep with a write to address 48, below the last written one.
  Entry 48 now holds 14 mV, both bounds are 60, the table is stored in the EEPROM and the
  stage is DONE, not ERROR.
\<close>

theorem vco_linearity_last_write_below:
  "map_sum id (\<lambda>s. (stage s, stage_vco s, address_last s, matrix (calib_matrix_1 s) ! 48))
     (vco_linearity_run linearity_start drop_run 5000) = Inr (VCO_1, LINEARITY, 49, 10)
   \<and> map_sum id (\<lambda>s. (stage s, address_last s, note_min (calib_matrix_1 s),
                      note_max (calib_matrix_1 s), matrix (calib_matrix_1 s) ! 48,
                      eeprom_matrix_1 s = calib_matrix_1 s))
     (vco_linearity_run linearity_start (drop_run @ steady 9500 12750) 5000)
     = Inr (DONE, 49, 60, 60, 14, True)"
  by (simp add: drop_run_def steady_def linearity_start_def vco_1_entered_eq calibration_static_def
      blank_matrix_def MATRIX_LEN_def sweep_defs replicate_5 list_update_Cons_numeral)


text \<open>The end of the sweep while the previous stable reading is below 1200 cents: the
  index of the last write lies outside the array, whether the sweep ends by voltage or by
  a reading above 12700 cents.\<close>

lemma note_index_below_12:
  assumes "c < 1200"
  shows "65524 \<le> note_index (ucast (c div 100 :: u16) :: u8)"
proof -
  have c: "unat c < 1200" using assms by (simp add: word_less_nat_alt)
  then have q: "unat c div 100 < 12" by simp
  have a: "unat (ucast (c div 100) :: u8) = unat c div 100"
    using q by (simp add: unsigned_ucast_eq unat_div take_bit_nat_eq_self)
  have b: "unat (ucast (ucast (c div 100) :: u8) :: u16) = unat c div 100"
    using q a
    by (simp add: unsigned_ucast_eq unsigned_take_bit_eq take_bit_nat_eq_self unat_div)
  have "unat ((ucast (ucast (c div 100) :: u8) :: u16) - 12) = 65536 + unat c div 100 - 12"
    using b q by (simp add: unat_sub_if_size word_less_nat_alt word_size)
  then show ?thesis by (simp add: note_index_def)
qed

lemma vco_advance_out_of_bounds:
  assumes "vco_cents_last s < 1200"
    and "get_current_maximum s vcc (vco_channel s) * CALIB_VCO_MAX_SCALE
           \<le> real (unat (mv_current s + 1))
         \<or> 12700 < vco_cents"
    and "length (matrix (vco_matrix s)) = MATRIX_LEN"
  shows "vco_advance s vco_cents vcc
         = Inl (OutOfBounds (note_index (ucast (vco_cents_last s div 100))))"
  using assms note_index_below_12 [of "vco_cents_last s"]
  by (auto simp: vco_advance_def Let_def and_then_def mat_write_def set_dac_cv_def dac_set_def
      vco_matrix_def vco_channel_def MATRIX_LEN_def get_current_maximum_def split: if_splits)

text \<open>
  C10 asks that the last write of the sweep, at \<open>note_max - 12\<close> with \<open>note_max =
  vco_cents_last / 100\<close>, stays inside the 116 entries. It does not when the sweep ends
  before a reading of at least 1200 cents was stored: from the start of the sub-stage
  LINEARITY (\<open>vco_cents_last = 0\<close>), a first stable reading of 12800 cents ends the sweep
  with \<open>note_max = 0\<close>, and the index \<open>0 - 12U\<close> wraps to 65524.
\<close>

theorem vco_linearity_last_write_out_of_bounds:
  "linearity_entered = Inr linearity_start
   \<and> vco_cents_last linearity_start = 0
   \<and> vco_linearity_run linearity_start (steady 7100 12800) 5000 = Inl (OutOfBounds 65524)"
  using linearity_entered_eq first_reading_above_range by (simp add: linearity_start_def)

section \<open>Loss of the signal\<close>

lemma btn_short_press_keeps:
  "time_last (btn_short_press s) = time_last s
   \<and> frequency_raw (btn_short_press s) = frequency_raw s
   \<and> frequency (btn_short_press s) = frequency s
   \<and> stage_vco (btn_short_press s) = stage_vco s
   \<and> (stage s = VCO_1 \<or> stage s = VCO_2 \<longrightarrow> stage (btn_short_press s) = stage s)"
  by (cases "stage s") (simp_all add: btn_short_press_def dac_set_def)

lemma btn_long_press_keeps:
  "time_last (btn_long_press s dip) = time_last s
   \<and> frequency_raw (btn_long_press s dip) = frequency_raw s
   \<and> (frequency (btn_long_press s dip) = frequency s \<or> frequency (btn_long_press s dip) = 0)
   \<and> (stage s = VCO_1 \<or> stage s = VCO_2 \<longrightarrow> btn_long_press s dip = s)"
  by (cases "stage s")
    (simp_all add: btn_long_press_def dac_set_def clear_bounds_def write_matrices_def Let_def)

lemma btn_keeps:
  "time_last (btn s time pressed dip) = time_last s
   \<and> frequency_raw (btn s time pressed dip) = frequency_raw s
   \<and> (frequency (btn s time pressed dip) = frequency s \<or> frequency (btn s time pressed dip) = 0)
   \<and> (stage s = VCO_1 \<or> stage s = VCO_2 \<longrightarrow>
        stage (btn s time pressed dip) = stage s
        \<and> stage_vco (btn s time pressed dip) = stage_vco s
        \<and> frequency (btn s time pressed dip) = frequency s)"
proof -
  obtain t' h' ev where c: "btn_classify (btn_timer s, btn_handled s) time pressed = ((t', h'), ev)"
    by (metis surj_pair)
  define s0 where "s0 = s\<lparr>btn_timer := t', btn_handled := h'\<rparr>"
  have k: "time_last s0 = time_last s" "frequency_raw s0 = frequency_raw s"
    "frequency s0 = frequency s" "stage s0 = stage s" "stage_vco s0 = stage_vco s"
    by (simp_all add: s0_def)
  show ?thesis
  proof (cases ev)
    case None
    then have "btn s time pressed dip = s0"
      by (simp add: btn_classify_refines c s0_def)
    then show ?thesis using k by simp
  next
    case (Some b)
    show ?thesis
    proof (cases b)
      case ShortPress
      then have "btn s time pressed dip = btn_short_press s0"
        using Some by (simp add: btn_classify_refines c s0_def)
      then show ?thesis using k btn_short_press_keeps [of s0] by simp
    next
      case LongPress
      then have "btn s time pressed dip = btn_long_press s0 dip"
        using Some by (simp add: btn_classify_refines c s0_def)
      then show ?thesis using k btn_long_press_keeps [of s0 dip] by auto
    qed
  qed
qed


lemma loop_read_facts:
  "time_last (loop_read s e) = time_last s
   \<and> frequency_raw (loop_read s e) = frequency_raw s
   \<and> (0 \<le> frequency_raw s \<longrightarrow> 0 \<le> frequency (loop_read s e))
   \<and> (stage s = VCO_1 \<or> stage s = VCO_2 \<longrightarrow>
        stage (loop_read s e) = stage s \<and> stage_vco (loop_read s e) = stage_vco s)"
proof -
  define s1 where "s1 = btn s (in_btn_millis e) (in_btn_pressed e) (in_dip e)"
  define s2 where "s2 = (if stage s1 = GAIN_1 then s1\<lparr>gain_1_offset := dip_to_gain_offset (in_dip e)\<rparr>
                else if stage s1 = GAIN_2
                then s1\<lparr>gain_2_offset := dip_to_gain_offset (in_dip e)\<rparr>
                else s1)"
  have b: "time_last s1 = time_last s" "frequency_raw s1 = frequency_raw s"
    "stage s = VCO_1 \<or> stage s = VCO_2 \<Longrightarrow> stage s1 = stage s \<and> stage_vco s1 = stage_vco s"
    using btn_keeps [of s "in_btn_millis e" "in_btn_pressed e" "in_dip e"]
    by (simp_all add: s1_def)
  have k: "time_last s2 = time_last s" "frequency_raw s2 = frequency_raw s"
    "stage s2 = stage s1" "stage_vco s2 = stage_vco s1"
    using b by (simp_all add: s2_def)
  have r: "loop_read s e = (if frequency s2 \<le> 1 then s2\<lparr>frequency := frequency_raw s2\<rparr>
         else s2\<lparr>frequency := frequency s2 * CALIB_VCO_FREQ_FILTER_K
                                 + frequency_raw s2 * (1 - CALIB_VCO_FREQ_FILTER_K)\<rparr>)"
    by (simp only: loop_read_def Let_def s1_def s2_def)
  have nn: "0 \<le> frequency (loop_read s e)" if "0 \<le> frequency_raw s"
  proof (cases "frequency s2 \<le> 1")
    case True
    then show ?thesis using that k by (simp add: r)
  next
    case False
    then have "0 \<le> frequency s2 * (994 / 1000)" by simp
    moreover have "0 \<le> frequency_raw s2 * (1 - 994 / 1000)" using that k by simp
    ultimately show ?thesis using False by (simp add: r CALIB_VCO_FREQ_FILTER_K_def)
  qed
  show ?thesis using k b nn by (auto simp: r)
qed

lemma tuner_frequency:
  assumes "tuner s dip = Inr s'"
  shows "frequency s' = frequency s"
  using assms
  by (auto simp: tuner_def Let_def and_then_def dac_set_def split: sum.splits)

lemma vco_advance_frequency:
  assumes "vco_advance s c vcc = Inr s'"
  shows "frequency s' = frequency s"
  using assms
  by (auto simp: vco_advance_def Let_def and_then_def dac_set_def set_dac_cv_def
      write_matrices_def vco_matrix_update_def split: if_splits sum.splits)


lemma vco_sample_frequency:
  assumes "vco_sample s c vcc = Inr s'"
  shows "frequency s' = frequency s"
  using assms
  by (auto simp: vco_sample_def Let_def and_then_def mat_write_def vco_matrix_update_def
      split: if_splits dest!: vco_advance_frequency)

lemma vco_linearity_frequency:
  assumes "vco_linearity s time c vcc = Inr s'"
  shows "frequency s' = frequency s"
  using assms
  by (auto simp: vco_linearity_def Let_def split: if_splits dest!: vco_sample_frequency)

lemma vco_frequency:
  assumes "vco s time vcc = Inr s'"
  shows "frequency s' = frequency s \<or> frequency s' = 0"
  using assms
  by (cases "stage_vco s")
    (auto simp: vco_def Let_def set_dac_cv_def dac_set_def split: if_splits
      dest!: vco_linearity_frequency)

lemma loop_dispatch_frequency:
  assumes "loop_dispatch s e = Inr s'"
  shows "frequency s' = frequency s \<or> frequency s' = 0"
proof -
  obtain s1 where a: "(if stage s = TUNER \<or> ((stage s = VCO_1 \<or> stage s = VCO_2) \<and> stage_vco s = VcoTUNER)
        then tuner s (in_dip e) else Inr s) = Inr s1"
    and b: "(if stage s1 = VCO_1 \<or> stage s1 = VCO_2
             then vco s1 (in_vco_millis e) (in_vcc e) else Inr s1) = Inr s'"
    using assms unfolding loop_dispatch_def and_then_def by (auto split: sum.splits)
  have "frequency s1 = frequency s"
    using a tuner_frequency [of s "in_dip e" s1] by (auto split: if_splits)
  moreover have "frequency s' = frequency s1 \<or> frequency s' = 0"
    using b vco_frequency [of s1 "in_vco_millis e" "in_vcc e" s'] by (auto split: if_splits)
  ultimately show ?thesis by auto
qed

lemma loop_forces_zero:
  assumes a: "active s" and ne: "stage s \<noteq> ERROR" and raw: "0 \<le> frequency_raw s"
    and to: "2000000 < in_micros e - time_last s"
    and r: "loop s e = Inr s'"
  shows "frequency s' = 0"
proof -
  define s1 where "s1 = loop_read s e"
  have f: "0 \<le> frequency s1" and tl: "time_last s1 = time_last s"
    using loop_read_facts [of s e] raw by (simp_all add: s1_def)
  obtain s2 ret where c: "loop_signal_check s1 (in_micros e) = (s2, ret)" by fastforce
  have z: "frequency s2 = 0"
    using c f to tl by (auto simp: loop_signal_check_def Let_def split: if_splits)
  have "(if ret then Inr s2 else loop_dispatch s2 e) = Inr s'"
    using r a ne c by (simp add: loop_def s1_def)
  then show ?thesis using z loop_dispatch_frequency [of s2 e s'] by (auto split: if_splits)
qed

lemma loop_timeout_error:
  assumes a: "active s" and st: "stage s = VCO_1 \<or> stage s = VCO_2"
    and sv: "stage_vco s = LINEARITY"
    and pos: "0 < frequency (loop_read s e)"
    and to: "2000000 < in_micros e - time_last s"
  shows "loop s e = Inr ((loop_read s e)\<lparr>frequency := 0, frequency_raw := 0, stage := ERROR\<rparr>)"
proof -
  have k: "time_last (loop_read s e) = time_last s" "stage (loop_read s e) = stage s"
    "stage_vco (loop_read s e) = stage_vco s"
    using loop_read_facts [of s e] st by simp_all
  have "loop_signal_check (loop_read s e) (in_micros e)
        = ((loop_read s e)\<lparr>frequency := 0, frequency_raw := 0, stage := ERROR\<rparr>, True)"
    using pos to st sv by (simp add: loop_signal_check_def Let_def k)
  then show ?thesis using a st by (auto simp: loop_def)
qed

lemma loop_error_step:
  assumes "active s" and "stage s = ERROR"
  shows "loop s e = Inr (dac_set s 0 0)"
  using assms by (simp add: loop_def)

lemma loop_run_error:
  assumes "active s" and "stage s = ERROR"
  shows "\<exists>s'. loop_run s es = Inr s' \<and> active s' \<and> stage s' = ERROR
              \<and> (es \<noteq> [] \<longrightarrow> dac_1_target s' = 0 \<and> dac_2_target s' = 0)"
  using assms
proof (induction es arbitrary: s)
  case Nil
  then show ?case by simp
next
  case (Cons e es)
  have s: "loop s e = Inr (dac_set s 0 0)" using Cons.prems by (rule loop_error_step)
  have p: "active (dac_set s 0 0)" "stage (dac_set s 0 0) = ERROR"
    "dac_1_target (dac_set s 0 0) = 0" "dac_2_target (dac_set s 0 0) = 0"
    using Cons.prems by (simp_all add: dac_set_def)
  from Cons.IH [OF p(1,2)] obtain s' where
    r: "loop_run (dac_set s 0 0) es = Inr s'" "active s'" "stage s' = ERROR"
      "es \<noteq> [] \<longrightarrow> dac_1_target s' = 0 \<and> dac_2_target s' = 0"
    by blast
  show ?case
  proof (cases es)
    case Nil
    then show ?thesis using s p by (simp add: and_then_def)
  next
    case (Cons a list)
    then show ?thesis using s r by (simp add: and_then_def)
  qed
qed


lemma tuner_frequency_raw:
  assumes "tuner s dip = Inr s'"
  shows "frequency_raw s' = frequency_raw s"
  using assms
  by (auto simp: tuner_def Let_def and_then_def dac_set_def split: sum.splits)

lemma vco_advance_frequency_raw:
  assumes "vco_advance s c vcc = Inr s'"
  shows "frequency_raw s' = frequency_raw s"
  using assms
  by (auto simp: vco_advance_def Let_def and_then_def dac_set_def set_dac_cv_def
      write_matrices_def vco_matrix_update_def split: if_splits sum.splits)

lemma vco_sample_frequency_raw:
  assumes "vco_sample s c vcc = Inr s'"
  shows "frequency_raw s' = frequency_raw s"
  using assms
  by (auto simp: vco_sample_def Let_def and_then_def mat_write_def vco_matrix_update_def
      split: if_splits dest!: vco_advance_frequency_raw)

lemma vco_linearity_frequency_raw:
  assumes "vco_linearity s time c vcc = Inr s'"
  shows "frequency_raw s' = frequency_raw s"
  using assms
  by (auto simp: vco_linearity_def Let_def split: if_splits dest!: vco_sample_frequency_raw)

lemma vco_frequency_raw:
  assumes "vco s time vcc = Inr s'"
  shows "frequency_raw s' = frequency_raw s \<or> frequency_raw s' = 0"
  using assms
  by (cases "stage_vco s")
    (auto simp: vco_def Let_def set_dac_cv_def dac_set_def split: if_splits
      dest!: vco_linearity_frequency_raw)

lemma loop_dispatch_frequency_raw:
  assumes "loop_dispatch s e = Inr s'"
  shows "frequency_raw s' = frequency_raw s \<or> frequency_raw s' = 0"
proof -
  obtain s1 where a: "(if stage s = TUNER \<or> ((stage s = VCO_1 \<or> stage s = VCO_2) \<and> stage_vco s = VcoTUNER)
        then tuner s (in_dip e) else Inr s) = Inr s1"
    and b: "(if stage s1 = VCO_1 \<or> stage s1 = VCO_2
             then vco s1 (in_vco_millis e) (in_vcc e) else Inr s1) = Inr s'"
    using assms unfolding loop_dispatch_def and_then_def by (auto split: sum.splits)
  have "frequency_raw s1 = frequency_raw s"
    using a tuner_frequency_raw [of s "in_dip e" s1] by (auto split: if_splits)
  moreover have "frequency_raw s' = frequency_raw s1 \<or> frequency_raw s' = 0"
    using b vco_frequency_raw [of s1 "in_vco_millis e" "in_vcc e" s'] by (auto split: if_splits)
  ultimately show ?thesis by auto
qed

lemma loop_frequency_raw:
  assumes r: "loop s e = Inr s'"
  shows "frequency_raw s' = frequency_raw s \<or> frequency_raw s' = 0"
proof (cases "active s \<and> stage s \<noteq> ERROR")
  case False
  then show ?thesis using r by (auto simp: loop_def dac_set_def split: if_splits)
next
  case True
  define s1 where "s1 = loop_read s e"
  have f: "frequency_raw s1 = frequency_raw s"
    using loop_read_facts [of s e] by (simp add: s1_def)
  obtain s2 ret where c: "loop_signal_check s1 (in_micros e) = (s2, ret)" by fastforce
  have z: "frequency_raw s2 = frequency_raw s \<or> frequency_raw s2 = 0"
    using c f by (auto simp: loop_signal_check_def Let_def split: if_splits)
  have "(if ret then Inr s2 else loop_dispatch s2 e) = Inr s'"
    using r True c by (simp add: loop_def s1_def)
  then show ?thesis using z loop_dispatch_frequency_raw [of s2 e s'] by (auto split: if_splits)
qed

text \<open>The raw reading is never negative: it starts at zero, the interrupt handler stores
  a positive quotient, and the loop keeps it or stores zero.\<close>

lemma frequency_raw_not_negative:
  "frequency_raw (init_check (calibration_static g1 g2 e1 e2) pressed) = 0
   \<and> (0 \<le> frequency_raw s \<longrightarrow> 0 \<le> frequency_raw (handle_interrupt s time))
   \<and> (0 \<le> frequency_raw s \<and> loop s e = Inr s' \<longrightarrow> 0 \<le> frequency_raw s')"
proof (intro conjI impI)
  show "frequency_raw (init_check (calibration_static g1 g2 e1 e2) pressed) = 0"
    by (simp add: init_check_def calibration_static_def read_matrices_def Let_def dac_set_def)
  show "0 \<le> frequency_raw (handle_interrupt s time)" if "0 \<le> frequency_raw s"
    using that by (simp add: handle_interrupt_def)
  show "0 \<le> frequency_raw s'" if "0 \<le> frequency_raw s \<and> loop s e = Inr s'"
    using that loop_frequency_raw [of s e s'] by auto
qed


text \<open>
  C7, as the code has it. In an iteration of the active loop that starts outside ERROR
  with a raw reading that is not negative (the interrupt handler stores positive values
  only, the loop zero), when more than 2000000 microseconds have passed since the last
  edge time stamp, the smoothed reading is zero after the iteration, if the iteration
  returns without a fault of the table. When the stage is VCO\_1 or VCO\_2 with the
  sub-stage LINEARITY and the filtered reading of this iteration is still positive, the
  stage becomes ERROR and the loop returns, with both readings zero. From ERROR, any
  further iterations of the active loop, whatever the button and the other inputs, leave
  the stage at ERROR and both outputs at zero.
\<close>

theorem loop_signal_lost:
  "(active s \<and> stage s \<noteq> ERROR \<and> 0 \<le> frequency_raw s
      \<and> 2000000 < in_micros e - time_last s \<and> loop s e = Inr s'
     \<longrightarrow> frequency s' = 0)
   \<and> (active s \<and> (stage s = VCO_1 \<or> stage s = VCO_2) \<and> stage_vco s = LINEARITY
      \<and> 0 < frequency (loop_read s e) \<and> 2000000 < in_micros e - time_last s
     \<longrightarrow> loop s e = Inr ((loop_read s e)\<lparr>frequency := 0, frequency_raw := 0, stage := ERROR\<rparr>))
   \<and> (active s \<and> stage s = ERROR
     \<longrightarrow> (\<exists>s''. loop_run s es = Inr s'' \<and> active s'' \<and> stage s'' = ERROR
              \<and> (es \<noteq> [] \<longrightarrow> dac_1_target s'' = 0 \<and> dac_2_target s'' = 0)))"
  using loop_forces_zero [of s e s'] loop_timeout_error [of s e] loop_run_error [of s es]
  by blast

lemmas loop_defs =
  loop_def loop_read_def loop_signal_check_def loop_dispatch_def btn_def BTN_DEBOUNCE_def
  BTN_LONG_PRESS_def btn_short_press_def vco_def hz_to_note_def CALIB_VCO_FREQ_FILTER_K_def

text \<open>C7 as stated fails when the reading is already zero: the check of the time stamp
  sits behind \<^verbatim>\<open>if (frequency > 0.f)\<close>. At the start of LINEARITY without a signal,
  9 s after the last edge, the iteration leaves the stage at VCO\_1. In ERROR, and
  outside a calibration session, the loop returns before the check: a reading of 440 Hz
  stays, 8 s after the last edge.\<close>

theorem loop_silent_sweep_no_error:
  "active linearity_start \<and> stage linearity_start = VCO_1
   \<and> stage_vco linearity_start = LINEARITY
   \<and> 2000000 < in_micros late_input - time_last linearity_start
   \<and> map_sum id (\<lambda>s. (stage s, stage_vco s)) (loop linearity_start late_input)
     = Inr (VCO_1, LINEARITY)
   \<and> active (measuring\<lparr>stage := ERROR\<rparr>)
   \<and> 2000000 < in_micros late_input - time_last (measuring\<lparr>stage := ERROR\<rparr>)
   \<and> map_sum id frequency (loop (measuring\<lparr>stage := ERROR\<rparr>) late_input) = Inr 440
   \<and> map_sum id frequency (loop (measuring\<lparr>active := False\<rparr>) late_input) = Inr 440"
  by (simp add: late_input_def measuring_def linearity_start_def vco_1_entered_eq
      calibration_static_def blank_matrix_def MATRIX_LEN_def loop_defs sweep_defs replicate_5
      list_update_Cons_numeral)

lemma measuring_read:
  "active measuring \<and> stage measuring = VCO_1 \<and> stage_vco measuring = LINEARITY
   \<and> frequency_raw measuring = 440 \<and> time_last measuring = 1000000
   \<and> frequency (loop_read measuring late_input) = 440
   \<and> active (loop_read measuring late_input)
   \<and> in_micros late_input = 9000000"
  by (simp add: measuring_def late_input_def linearity_start_def vco_1_entered_eq
      calibration_static_def loop_defs Let_def dac_set_def)


theorem loop_signal_lost_witness:
  "active measuring \<and> stage measuring = VCO_1 \<and> stage_vco measuring = LINEARITY
   \<and> 0 < frequency (loop_read measuring late_input)
   \<and> 2000000 < in_micros late_input - time_last measuring
   \<and> loop measuring late_input
     = Inr ((loop_read measuring late_input)\<lparr>frequency := 0, frequency_raw := 0, stage := ERROR\<rparr>)
   \<and> frequency ((loop_read measuring late_input)
                  \<lparr>frequency := 0, frequency_raw := 0, stage := ERROR\<rparr>) = 0
   \<and> (\<exists>s''. loop_run ((loop_read measuring late_input)
                          \<lparr>frequency := 0, frequency_raw := 0, stage := ERROR\<rparr>)
                [late_input, late_input] = Inr s''
          \<and> active s'' \<and> stage s'' = ERROR \<and> dac_1_target s'' = 0 \<and> dac_2_target s'' = 0)"
proof -
  define E where
    "E = (loop_read measuring late_input)\<lparr>frequency := 0, frequency_raw := 0, stage := ERROR\<rparr>"
  have m: "active measuring" "stage measuring = VCO_1" "stage_vco measuring = LINEARITY"
    "0 \<le> frequency_raw measuring" "0 < frequency (loop_read measuring late_input)"
    "2000000 < in_micros late_input - time_last measuring"
    "stage measuring \<noteq> ERROR"
    using measuring_read by simp_all
  have c2: "loop measuring late_input = Inr E"
    using loop_signal_lost [where s = measuring and e = late_input] m unfolding E_def by blast
  have c1: "frequency E = 0"
    using loop_signal_lost [where s = measuring and e = late_input and s' = E] m c2 by blast
  have e: "active E" "stage E = ERROR" using measuring_read by (simp_all add: E_def)
  have l: "[late_input, late_input] \<noteq> []" by simp
  have c3: "\<exists>s''. loop_run E [late_input, late_input] = Inr s''
          \<and> active s'' \<and> stage s'' = ERROR \<and> dac_1_target s'' = 0 \<and> dac_2_target s'' = 0"
    using loop_signal_lost [where s = E and es = "[late_input, late_input]"] e l by blast
  show ?thesis using m c1 c2 c3 unfolding E_def by blast
qed

end
